theory Spec2Isabelle
  imports Complex_Main
begin

section \<open>Numbers and scene-graph objects\<close>

text \<open>
  The program is JavaScript on top of the three.js scene graph. JavaScript numbers are
  read here as real numbers: \<open>+\<close>, \<open>*\<close> and \<open>/\<close> are the exact operations, and
  \<open>Math.PI\<close> is \<open>pi\<close>. Pixel counts and array indices are natural numbers or integers.

  Of a three.js \<open>Object3D\<close> (a \<open>Mesh\<close> or a \<open>Group\<close>) the program reads and writes only
  \<open>position.x\<close>, \<open>rotation.x\<close> and \<open>rotation.y\<close>; a fresh object has all of them 0.
  Every object is created by its own \<open>new\<close> and is referenced from exactly one table
  entry, so the objects are held by value inside the entry that owns them.
\<close>

record object3D =
  position_x :: real
  rotation_x :: real
  rotation_y :: real

definition new_Object3D :: object3D where
  "new_Object3D = \<lparr>position_x = 0, rotation_x = 0, rotation_y = 0\<rparr>"

text \<open>
  The fields that the entries of \<open>planetParams\<close> (first program) and of \<open>planetsData\<close>
  (second program) share. The field \<open>texture\<close> holds the texture that \<open>loadTexture\<close>
  returned, named by the file at the end of its URL; \<open>size\<close> is written \<open>size_p\<close>.
\<close>

record body =
  name :: string
  size_p :: real
  distance :: real
  color :: nat
  texture :: string

text \<open>An entry that owns a mesh and the orbit group the mesh is parented under.\<close>

record orbiter =
  mesh :: object3D
  orbitGroup :: object3D

section \<open>First program of part\_000: the plain solar system\<close>

record planetParam = body +
  orbitSpeed :: real
  rotationSpeed :: real

definition mkParam :: "string \<Rightarrow> real \<Rightarrow> real \<Rightarrow> nat \<Rightarrow> real \<Rightarrow> real \<Rightarrow> string \<Rightarrow> planetParam" where
  "mkParam n s d c os rs t =
     \<lparr>name = n, size_p = s, distance = d, color = c, texture = t,
      orbitSpeed = os, rotationSpeed = rs\<rparr>"

definition planetParams :: "planetParam list" where
  "planetParams =
    [mkParam ''Mercury'' 2 40 0xaaaaaa 0.008 0.018 ''8k_mercury.jpg'',
     mkParam ''Venus'' 3 65 0xffcccc 0.007 0.008 ''8k_venus_surface.jpg'',
     mkParam ''Earth'' 3.5 100 0x3399ff 0.006 0.016 ''8k_earth_daymap.jpg'',
     mkParam ''Mars'' 3 125 0xff5500 0.005 0.014 ''8k_mars.jpg'',
     mkParam ''Jupiter'' 10 170 0xe3b679 0.0025 0.03 ''8k_jupiter.jpg'',
     mkParam ''Saturn'' 8 210 0xf6e289 0.0018 0.025 ''8k_saturn.jpg'',
     mkParam ''Uranus'' 6 255 0x00eaff 0.0009 0.019 ''8k_uranus.jpg'',
     mkParam ''Neptune'' 6 295 0x1a06aa 0.0007 0.017 ''8k_neptune.jpg'',
     mkParam ''Pluto'' 1 335 0xc8d1ff 0.0005 0.012 ''8k_pluto.jpg'']"

record planetGroup = orbiter +
  params :: planetParam
  angle :: real

text \<open>
  The body of \<open>planetParams.forEach((p, idx) => ...)\<close>: the planet mesh is placed at
  \<open>x = p.distance\<close> under a fresh orbit group, and the entry pushed on \<open>planetGroups\<close>
  starts at the angle \<open>idx * Math.PI / 4\<close>.
\<close>

definition create_planet :: "planetParam \<Rightarrow> nat \<Rightarrow> planetGroup" where
  "create_planet p idx =
     \<lparr>mesh = new_Object3D\<lparr>position_x := distance p\<rparr>,
      orbitGroup = new_Object3D,
      params = p,
      angle = real idx * pi / 4\<rparr>"

definition create_planets :: "planetParam list \<Rightarrow> planetGroup list" where
  "create_planets ps = map (\<lambda>(idx, p). create_planet p idx) (enumerate 0 ps)"

text \<open>The three statements of the body of \<open>planetGroups.forEach(pg => ...)\<close>.\<close>

definition accumulate_angle :: "planetGroup \<Rightarrow> planetGroup" where
  "accumulate_angle pg = pg\<lparr>angle := angle pg + orbitSpeed (params pg)\<rparr>"

definition set_orbit_rotation :: "planetGroup \<Rightarrow> planetGroup" where
  "set_orbit_rotation pg = pg\<lparr>orbitGroup := (orbitGroup pg)\<lparr>rotation_y := angle pg\<rparr>\<rparr>"

definition spin_mesh :: "planetGroup \<Rightarrow> planetGroup" where
  "spin_mesh pg =
     pg\<lparr>mesh := (mesh pg)\<lparr>rotation_y := rotation_y (mesh pg) + rotationSpeed (params pg) * 0.03\<rparr>\<rparr>"

definition animate_planet :: "planetGroup \<Rightarrow> planetGroup" where
  "animate_planet pg = spin_mesh (set_orbit_rotation (accumulate_angle pg))"

text \<open>
  What a frame callback does to the world outside the scene graph is kept as a log:
  the calls into the camera controller and the renderer, the frame it asks for next,
  and marks for the angle updates and the canvas repaints.
\<close>

datatype callback = Animate | AnimateMatrixRain

datatype effect =
    RequestFrame callback
  | ControlsUpdate
  | AngleAccumulation
  | PoseUpdate
  | CanvasRepaint
  | Render

record scene1 =
  sun_rotation_y :: real
  planetGroups :: "planetGroup list"
  log1 :: "effect list"

definition scene1_init :: scene1 where
  "scene1_init =
     \<lparr>sun_rotation_y = 0, planetGroups = create_planets planetParams, log1 = []\<rparr>"

text \<open>
  \<open>animate\<close> of the first program. The browser hands the frame's time stamp to the
  callback; \<open>animate\<close> declares no parameter and never reads a clock.
\<close>

definition animate1 :: "real \<Rightarrow> scene1 \<Rightarrow> scene1" where
  "animate1 timestamp s =
     (let s1 = s\<lparr>log1 := log1 s @ [RequestFrame Animate]\<rparr>;
          s2 = s1\<lparr>log1 := log1 s1 @ [ControlsUpdate]\<rparr>;
          s3 = s2\<lparr>sun_rotation_y := sun_rotation_y s2 + 0.0004\<rparr>;
          s4 = s3\<lparr>planetGroups := map animate_planet (planetGroups s3),
                  log1 := log1 s3 @ [AngleAccumulation]\<rparr>
      in s4\<lparr>log1 := log1 s4 @ [Render]\<rparr>)"

text \<open>The frames of a run, one per time stamp, oldest first.\<close>

definition run_frames1 :: "real list \<Rightarrow> scene1 \<Rightarrow> scene1" where
  "run_frames1 ts s = fold animate1 ts s"

text \<open>Equality of two angles modulo a full turn.\<close>

definition cong_2pi :: "real \<Rightarrow> real \<Rightarrow> bool" where
  "cong_2pi a b = (\<exists>n::int. a - b = 2 * pi * of_int n)"

section \<open>Second program of part\_000: the detailed solar system\<close>

text \<open>
  An entry of \<open>planetsData\<close>. The optional texture fields name a texture as \<open>texture\<close>
  does, or are \<open>None\<close> where the entry has no such field. The last three fields are the
  ones the construction loop stores on the entry: the cloud shell, the night-light
  shell, and the moon with its own orbit group. Saturn's two ring radii, read only
  when the rings are built, are left out.
\<close>

record planetData = body +
  orbitalPeriod :: real
  rotationPeriod :: real
  axialTilt :: real
  cloudsTexture :: "string option"
  normalMap :: "string option"
  specularMap :: "string option"
  nightTexture :: "string option"
  ringTexture :: "string option"
  cloudsMesh :: "object3D option"
  nightLightsMesh :: "object3D option"
  moon :: "orbiter option"

definition mkData :: "string \<Rightarrow> real \<Rightarrow> real \<Rightarrow> real \<Rightarrow> real \<Rightarrow> real \<Rightarrow> string \<Rightarrow> nat \<Rightarrow> planetData" where
  "mkData n s d op rp tilt t c =
     \<lparr>name = n, size_p = s, distance = d, color = c, texture = t,
      orbitalPeriod = op, rotationPeriod = rp, axialTilt = tilt,
      cloudsTexture = None, normalMap = None, specularMap = None, nightTexture = None,
      ringTexture = None, cloudsMesh = None, nightLightsMesh = None, moon = None\<rparr>"

definition planetsData :: "planetData list" where
  "planetsData =
    [mkData ''Mercury'' 3 50 0.24 58.6 0.03 ''8k_mercury.jpg'' 0xAAAAAA,
     (mkData ''Venus'' 4.8 80 0.62 (- 243) 177.3 ''8k_venus_surface.jpg'' 0xFFAAAA)
       \<lparr>cloudsTexture := Some ''8k_venus_atmosphere.jpg''\<rparr>,
     (mkData ''Earth'' 5 120 1 1 23.5 ''8k_earth_daymap.jpg'' 0x0000FF)
       \<lparr>cloudsTexture := Some ''8k_earth_clouds.jpg'',
        normalMap := Some ''8k_earth_normal_map.jpg'',
        specularMap := Some ''8k_earth_specular_map.jpg'',
        nightTexture := Some ''8k_earth_nightmap.jpg''\<rparr>,
     mkData ''Mars'' 3.5 180 1.88 1.03 25.2 ''8k_mars.jpg'' 0xFF0000,
     mkData ''Jupiter'' 25 300 11.86 0.41 3.1 ''8k_jupiter.jpg'' 0xFFA500,
     (mkData ''Saturn'' 20 450 29.46 0.44 26.7 ''8k_saturn.jpg'' 0xFFD700)
       \<lparr>ringTexture := Some ''8k_saturn_ring_alpha.png''\<rparr>,
     mkData ''Uranus'' 18 600 84.01 (- 0.72) 97.8 ''8k_uranus.jpg'' 0xADD8E6,
     mkData ''Neptune'' 17 750 164.79 0.67 28.3 ''8k_neptune.jpg'' 0x00008B]"

record planet = orbiter +
  data :: planetData

text \<open>
  The body of the first \<open>planetsData.forEach(data => ...)\<close>. The shells and the moon's
  orbit group are children of the planet mesh; Saturn's rings are a child that no later
  code touches and are left out.
\<close>

text \<open>
  The moon's sphere is built with the radius 1.5 (\<open>new THREE.SphereGeometry(1.5, 32, 32)\<close>)
  and put at \<open>x = 15\<close> under its orbit group. No statement of \<open>animate\<close> refers to a
  geometry.
\<close>

definition moon_radius :: real where
  "moon_radius = 1.5"

definition create_moon :: orbiter where
  "create_moon = \<lparr>mesh = new_Object3D\<lparr>position_x := 15\<rparr>, orbitGroup = new_Object3D\<rparr>"

definition create_planet2 :: "planetData \<Rightarrow> planet" where
  "create_planet2 d =
     (let d1 = (if cloudsTexture d \<noteq> None then d\<lparr>cloudsMesh := Some new_Object3D\<rparr> else d);
          d2 = (if nightTexture d1 \<noteq> None then d1\<lparr>nightLightsMesh := Some new_Object3D\<rparr> else d1);
          d3 = (if name d2 = ''Earth'' then d2\<lparr>moon := Some create_moon\<rparr> else d2)
      in \<lparr>mesh = new_Object3D\<lparr>position_x := distance d\<rparr>,
          orbitGroup = new_Object3D,
          data = d3\<rparr>)"

text \<open>The statements of the body of \<open>planets.forEach(p => ...)\<close> in \<open>animate\<close>, in order.\<close>

definition apply_axial_tilt :: "planet \<Rightarrow> planet" where
  "apply_axial_tilt p =
     (let t = axialTilt (data p) * pi / 180;
          p1 = p\<lparr>mesh := (mesh p)\<lparr>rotation_x := t\<rparr>\<rparr>;
          p2 = (case cloudsMesh (data p1) of
                  None \<Rightarrow> p1
                | Some c \<Rightarrow> p1\<lparr>data := (data p1)\<lparr>cloudsMesh := Some (c\<lparr>rotation_x := t\<rparr>)\<rparr>\<rparr>)
      in (case nightLightsMesh (data p2) of
            None \<Rightarrow> p2
          | Some n \<Rightarrow> p2\<lparr>data := (data p2)\<lparr>nightLightsMesh := Some (n\<lparr>rotation_x := t\<rparr>)\<rparr>\<rparr>))"

definition orbit_step :: "planet \<Rightarrow> planet" where
  "orbit_step p =
     p\<lparr>orbitGroup := (orbitGroup p)
        \<lparr>rotation_y := rotation_y (orbitGroup p) + 0.005 / orbitalPeriod (data p)\<rparr>\<rparr>"

definition self_rotation :: "planet \<Rightarrow> planet" where
  "self_rotation p =
     p\<lparr>mesh := (mesh p)\<lparr>rotation_y := rotation_y (mesh p) + 0.05 / rotationPeriod (data p)\<rparr>\<rparr>"

definition clouds_rotation :: "planet \<Rightarrow> planet" where
  "clouds_rotation p =
     (case cloudsMesh (data p) of
        None \<Rightarrow> p
      | Some c \<Rightarrow>
          p\<lparr>data := (data p)\<lparr>cloudsMesh :=
              Some (c\<lparr>rotation_y := rotation_y c + (0.05 / rotationPeriod (data p)) * 0.9\<rparr>)\<rparr>\<rparr>)"

definition moon_step :: "orbiter \<Rightarrow> orbiter" where
  "moon_step m =
     (let m1 = m\<lparr>orbitGroup := (orbitGroup m)\<lparr>rotation_y := rotation_y (orbitGroup m) + 0.02\<rparr>\<rparr>
      in m1\<lparr>mesh := (mesh m1)\<lparr>rotation_y := rotation_y (mesh m1) + 0.005\<rparr>\<rparr>)"

definition animate_moon :: "planet \<Rightarrow> planet" where
  "animate_moon p =
     (if name (data p) = ''Earth'' then
        (case moon (data p) of
           None \<Rightarrow> p
         | Some m \<Rightarrow> p\<lparr>data := (data p)\<lparr>moon := Some (moon_step m)\<rparr>\<rparr>)
      else p)"

definition animate_planet2 :: "planet \<Rightarrow> planet" where
  "animate_planet2 p =
     animate_moon (clouds_rotation (self_rotation (orbit_step (apply_axial_tilt p))))"

record scene2 =
  sun2_rotation_y :: real
  planets :: "planet list"
  log2 :: "effect list"

definition scene2_init :: scene2 where
  "scene2_init = \<lparr>sun2_rotation_y = 0, planets = map create_planet2 planetsData, log2 = []\<rparr>"

definition animate2 :: "real \<Rightarrow> scene2 \<Rightarrow> scene2" where
  "animate2 timestamp s =
     (let s1 = s\<lparr>log2 := log2 s @ [RequestFrame Animate]\<rparr>;
          s2 = s1\<lparr>log2 := log2 s1 @ [ControlsUpdate]\<rparr>;
          s3 = s2\<lparr>sun2_rotation_y := sun2_rotation_y s2 + 0.0005\<rparr>;
          s4 = s3\<lparr>planets := map animate_planet2 (planets s3),
                  log2 := log2 s3 @ [AngleAccumulation]\<rparr>
      in s4\<lparr>log2 := log2 s4 @ [Render]\<rparr>)"

definition run_frames2 :: "real list \<Rightarrow> scene2 \<Rightarrow> scene2" where
  "run_frames2 ts s = fold animate2 ts s"

text \<open>
  Where the renderer puts a child: three.js composes each object's local transform with
  its parent's. An object's rotation is an Euler triple in the order XYZ, so with
  \<open>rotation.z = 0\<close> a point of the child's frame is turned about the y axis, then about
  the x axis, then moved by the object's position. The moon mesh sits under the moon's
  orbit group, that under the planet mesh, that under the planet's orbit group.
\<close>

type_synonym vec3 = "real \<times> real \<times> real"

fun rotate_y :: "real \<Rightarrow> vec3 \<Rightarrow> vec3" where
  "rotate_y a (x, y, z) = (x * cos a + z * sin a, y, z * cos a - x * sin a)"

fun rotate_x :: "real \<Rightarrow> vec3 \<Rightarrow> vec3" where
  "rotate_x a (x, y, z) = (x, y * cos a - z * sin a, y * sin a + z * cos a)"

fun to_parent :: "object3D \<Rightarrow> vec3 \<Rightarrow> vec3" where
  "to_parent obj v =
     (case rotate_x (rotation_x obj) (rotate_y (rotation_y obj) v) of
        (x, y, z) \<Rightarrow> (x + position_x obj, y, z))"

definition moon_world_position :: "planet \<Rightarrow> vec3 option" where
  "moon_world_position p =
     (case moon (data p) of
        None \<Rightarrow> None
      | Some m \<Rightarrow>
          Some (to_parent (orbitGroup p) (to_parent (mesh p)
                  (to_parent (orbitGroup m) (to_parent (mesh m) (0, 0, 0))))))"

section \<open>script.js: the room\<close>

text \<open>
  The main monitor. \<open>mDrops\<close> holds one drop per column; the pixels of the canvas are
  not kept, a repaint is an entry of the log. \<open>Math.random()\<close> is an input: \<open>rnd i\<close> is
  the draw that decides whether drop \<open>i\<close> starts again from the top in this frame.
\<close>

record drop =
  drop_y :: real
  drop_speed :: real

definition matrixCanvas_height :: real where
  "matrixCanvas_height = 256"

definition animate_drop :: "real \<Rightarrow> drop \<Rightarrow> drop" where
  "animate_drop r d =
     (let d1 = d\<lparr>drop_y := drop_y d + drop_speed d\<rparr>
      in if drop_y d1 > matrixCanvas_height + 80 \<and> r > 0.96 then d1\<lparr>drop_y := 0\<rparr> else d1)"

text \<open>
  The room keeps the three named objects that \<open>animate\<close> looks up in the scene, the
  callbacks asked for the next frame (\<open>requestAnimationFrame\<close> runs them in the order
  they were asked for) and the log.
\<close>

record room =
  person_head :: "object3D option"
  left_arm :: "object3D option"
  right_arm :: "object3D option"
  mDrops :: "drop list"
  matrixTexture_needsUpdate :: bool
  raf_queue :: "callback list"
  log :: "effect list"

definition requestAnimationFrame :: "callback \<Rightarrow> room \<Rightarrow> room" where
  "requestAnimationFrame cb s =
     s\<lparr>raf_queue := raf_queue s @ [cb], log := log s @ [RequestFrame cb]\<rparr>"

definition animateMatrixRain :: "(nat \<Rightarrow> real) \<Rightarrow> room \<Rightarrow> room" where
  "animateMatrixRain rnd s =
     (let s1 = s\<lparr>log := log s @ [CanvasRepaint]\<rparr>;
          s2 = s1\<lparr>mDrops := map (\<lambda>(i, d). animate_drop (rnd i) d) (enumerate 0 (mDrops s1))\<rparr>;
          s3 = s2\<lparr>matrixTexture_needsUpdate := True\<rparr>
      in requestAnimationFrame AnimateMatrixRain s3)"

definition animate_room :: "real \<Rightarrow> room \<Rightarrow> room" where
  "animate_room now s =
     (let s1 = requestAnimationFrame Animate s;
          s2 = s1\<lparr>log := log s1 @ [ControlsUpdate]\<rparr>;
          time = now * 0.002;
          s3 = (case person_head s2 of
                  None \<Rightarrow> s2
                | Some h \<Rightarrow> s2\<lparr>person_head :=
                    Some (h\<lparr>rotation_y := sin (time * 0.7) * 0.15,
                            rotation_x := sin (time * 1.1) * 0.08\<rparr>)\<rparr>);
          s4 = (case (left_arm s3, right_arm s3) of
                  (Some l, Some r) \<Rightarrow>
                    s3\<lparr>left_arm := Some (l\<lparr>rotation_x := sin (time * 10) * 0.05 + 0.8\<rparr>),
                       right_arm := Some (r\<lparr>rotation_x := cos (time * 10) * 0.05 + 0.8\<rparr>)\<rparr>
                | _ \<Rightarrow> s3);
          s5 = s4\<lparr>log := log s4 @ [PoseUpdate]\<rparr>
      in s5\<lparr>log := log s5 @ [Render]\<rparr>)"

text \<open>
  One tick of the browser's frame scheduler: the callbacks asked for since the last
  tick run in order; what they ask for goes to the next tick. A tick's inputs are the
  clock read by \<open>Date.now()\<close> and the random draws.
\<close>

definition run_callback :: "real \<Rightarrow> (nat \<Rightarrow> real) \<Rightarrow> callback \<Rightarrow> room \<Rightarrow> room" where
  "run_callback now rnd cb s =
     (case cb of Animate \<Rightarrow> animate_room now s | AnimateMatrixRain \<Rightarrow> animateMatrixRain rnd s)"

definition frame_tick :: "real \<times> (nat \<Rightarrow> real) \<Rightarrow> room \<Rightarrow> room" where
  "frame_tick inp s =
     fold (run_callback (fst inp) (snd inp)) (raf_queue s) (s\<lparr>raf_queue := []\<rparr>)"

text \<open>
  Loading the script: the objects are built, \<open>animateMatrixRain()\<close> is called (line 171),
  later \<open>controls.update()\<close> and last \<open>animate()\<close> (line 416). The first drops are random.
\<close>

definition room_built :: "drop list \<Rightarrow> room" where
  "room_built drops =
     \<lparr>person_head = Some new_Object3D,
      left_arm = Some (new_Object3D\<lparr>rotation_x := 0.8\<rparr>),
      right_arm = Some (new_Object3D\<lparr>rotation_x := 0.8\<rparr>),
      mDrops = drops, matrixTexture_needsUpdate = False, raf_queue = [], log = []\<rparr>"

definition room_loaded :: "drop list \<Rightarrow> real \<times> (nat \<Rightarrow> real) \<Rightarrow> room" where
  "room_loaded drops inp =
     (let s1 = animateMatrixRain (snd inp) (room_built drops);
          s2 = s1\<lparr>log := log s1 @ [ControlsUpdate]\<rparr>
      in animate_room (fst inp) s2)"

definition run_ticks :: "(real \<times> (nat \<Rightarrow> real)) list \<Rightarrow> room \<Rightarrow> room" where
  "run_ticks inps s = fold frame_tick inps s"

text \<open>The four kinds of work that a tick is said to do, in the order in which it is said to do them.\<close>

definition frame_work :: "effect list \<Rightarrow> effect list" where
  "frame_work es = filter (\<lambda>e. e \<in> {ControlsUpdate, AngleAccumulation, CanvasRepaint, Render}) es"

definition stated_order :: "effect list" where
  "stated_order = [ControlsUpdate, AngleAccumulation, CanvasRepaint, Render]"

text \<open>A sample of random draws, all in the range of \<open>Math.random()\<close>.\<close>

definition sample_draws :: "nat \<Rightarrow> real" where
  "sample_draws i = 1 / (real i + 2)"

subsection \<open>The side monitor\<close>

text \<open>
  JavaScript's \<open>%\<close> keeps the sign of the dividend. An array read outside
  \<open>0 .. length - 1\<close> gives \<open>undefined\<close>, here \<open>None\<close>.
\<close>

definition js_rem :: "int \<Rightarrow> int \<Rightarrow> int" where
  "js_rem a b = sgn a * (\<bar>a\<bar> mod \<bar>b\<bar>)"

definition js_index :: "'a list \<Rightarrow> int \<Rightarrow> 'a option" where
  "js_index xs i = (if 0 \<le> i \<and> i < int (length xs) then Some (xs ! nat i) else None)"

definition codeLines :: "string list" where
  "codeLines =
    [''def fib(n):'', ''    a, b = 0, 1'', ''    while a < n:'', ''        print(a)'',
     ''        a, b = b, a+b'', [], ''fib(10)'', [], ''[OK] Script finished.'']"

record code_panel =
  codeScroll :: int
  drawn_lines :: "string option list"
  codeTexture_needsUpdate :: bool

text \<open>
  \<open>animateCodeOutput\<close> draws nine lines, \<open>drawn_lines\<close> being the arguments of the nine
  \<open>fillText\<close> calls, and sets a timer; \<open>timer_fires\<close> is the timer's callback, which
  ends by calling \<open>animateCodeOutput\<close> again.
\<close>

definition line_index :: "int \<Rightarrow> nat \<Rightarrow> int" where
  "line_index scroll i = js_rem (scroll + int i) (int (length codeLines))"

definition animateCodeOutput :: "code_panel \<Rightarrow> code_panel" where
  "animateCodeOutput cp =
     cp\<lparr>drawn_lines := map (\<lambda>i. js_index codeLines (line_index (codeScroll cp) i)) [0..<9]\<rparr>"

definition timer_fires :: "code_panel \<Rightarrow> code_panel" where
  "timer_fires cp =
     animateCodeOutput
       (cp\<lparr>codeScroll := js_rem (codeScroll cp + 1) (int (length codeLines)),
           codeTexture_needsUpdate := True\<rparr>)"

definition code_panel_loaded :: code_panel where
  "code_panel_loaded =
     animateCodeOutput \<lparr>codeScroll = 0, drawn_lines = [], codeTexture_needsUpdate = False\<rparr>"

section \<open>The resize listener\<close>

text \<open>
  \<open>window.innerWidth\<close> and \<open>window.innerHeight\<close> are whole numbers of pixels. Their
  quotient is a JavaScript number: dividing by 0 gives \<open>Infinity\<close>, or \<open>NaN\<close> for \<open>0 / 0\<close>.
\<close>

datatype jsnum = Finite real | Infinity | NaN

definition js_div :: "nat \<Rightarrow> nat \<Rightarrow> jsnum" where
  "js_div w h = (if h = 0 then (if w = 0 then NaN else Infinity) else Finite (real w / real h))"

text \<open>
  What the listener writes and a frame reads: the camera's \<open>aspect\<close>, the aspect that
  the projection matrix was last computed from (\<open>updateProjectionMatrix\<close>), the size of
  the renderer, and in script.js the size of the effect composer. \<open>frames\<close> lists what
  each rendered frame was drawn with.
\<close>

record display =
  camera_aspect :: jsnum
  projection_aspect :: jsnum
  renderer_size :: "nat \<times> nat"
  composer_size :: "(nat \<times> nat) option"
  frames :: "(jsnum \<times> (nat \<times> nat) \<times> (nat \<times> nat) option) list"

definition updateProjectionMatrix :: "display \<Rightarrow> display" where
  "updateProjectionMatrix d = d\<lparr>projection_aspect := camera_aspect d\<rparr>"

text \<open>The listener of both programs of part\_000, and the one of script.js.\<close>

definition resize_listener :: "nat \<Rightarrow> nat \<Rightarrow> display \<Rightarrow> display" where
  "resize_listener innerWidth innerHeight d =
     (let d1 = d\<lparr>camera_aspect := js_div innerWidth innerHeight\<rparr>;
          d2 = updateProjectionMatrix d1
      in d2\<lparr>renderer_size := (innerWidth, innerHeight)\<rparr>)"

definition resize_listener_room :: "nat \<Rightarrow> nat \<Rightarrow> display \<Rightarrow> display" where
  "resize_listener_room innerWidth innerHeight d =
     (let d1 = d\<lparr>camera_aspect := js_div innerWidth innerHeight\<rparr>;
          d2 = updateProjectionMatrix d1;
          d3 = d2\<lparr>renderer_size := (innerWidth, innerHeight)\<rparr>
      in d3\<lparr>composer_size := Some (innerWidth, innerHeight)\<rparr>)"

definition render_frame :: "display \<Rightarrow> display" where
  "render_frame d =
     d\<lparr>frames := frames d @ [(projection_aspect d, renderer_size d, composer_size d)]\<rparr>"

text \<open>
  The page is single-threaded: a resize event and a frame callback each run to their
  end before the next one starts, so a run is a list of events.
\<close>

datatype display_event = Resize nat nat | Frame

definition display_step ::
  "(nat \<Rightarrow> nat \<Rightarrow> display \<Rightarrow> display) \<Rightarrow> display_event \<Rightarrow> display \<Rightarrow> display" where
  "display_step listener e d =
     (case e of Resize w h \<Rightarrow> listener w h d | Frame \<Rightarrow> render_frame d)"

definition run_display ::
  "(nat \<Rightarrow> nat \<Rightarrow> display \<Rightarrow> display) \<Rightarrow> display_event list \<Rightarrow> display \<Rightarrow> display" where
  "run_display listener es d = fold (display_step listener) es d"

text \<open>
  The page as loaded with a window of \<open>w\<close> by \<open>h\<close> pixels: the camera is made with the
  aspect \<open>w / h\<close> and the renderer (and the composer of script.js) is sized to the window.
\<close>

definition display_loaded :: "nat \<Rightarrow> nat \<Rightarrow> bool \<Rightarrow> display" where
  "display_loaded w h with_composer =
     \<lparr>camera_aspect = js_div w h, projection_aspect = js_div w h,
      renderer_size = (w, h),
      composer_size = (if with_composer then Some (w, h) else None),
      frames = []\<rparr>"

section \<open>loadTexture\<close>

text \<open>
  Textures are objects that the caller holds by reference while the load goes on, so
  they live in a store and are named by their index in it. An image is absent, the
  bitmap decoded from a URL, or a 1x1 canvas filled with a colour.

  \<open>loadTexture\<close> is in part\_000; \<open>THREE.TextureLoader.load\<close> is three.js and is written
  here as three.js documents it: it makes a new texture without an image, starts the
  load and returns that texture at once; when the load succeeds it stores the image in
  that texture, when it fails it calls \<open>onError\<close> and makes no use of what the callback
  returns. The error callback of \<open>loadTexture\<close> is a closure over \<open>fallbackColor\<close>, kept
  in \<open>pending\<close> as that colour.
\<close>

datatype image = NoImage | Bitmap string | Canvas1x1 nat

record loader =
  textures :: "image list"
  pending :: "(nat \<times> string \<times> nat) list"

definition loader_init :: loader where
  "loader_init = \<lparr>textures = [], pending = []\<rparr>"

definition new_Texture :: "image \<Rightarrow> loader \<Rightarrow> nat \<times> loader" where
  "new_Texture img st = (length (textures st), st\<lparr>textures := textures st @ [img]\<rparr>)"

text \<open>The error callback: it fills a 1x1 canvas and returns a new canvas texture.\<close>

definition on_error :: "nat \<Rightarrow> loader \<Rightarrow> nat \<times> loader" where
  "on_error fallbackColor st = new_Texture (Canvas1x1 fallbackColor) st"

definition TextureLoader_load :: "string \<Rightarrow> nat \<Rightarrow> loader \<Rightarrow> nat \<times> loader" where
  "TextureLoader_load url onError_colour st =
     (case new_Texture NoImage st of
        (t, st1) \<Rightarrow> (t, st1\<lparr>pending := pending st1 @ [(t, url, onError_colour)]\<rparr>))"

definition loadTexture :: "string \<Rightarrow> nat option \<Rightarrow> loader \<Rightarrow> nat \<times> loader" where
  "loadTexture url fallbackColor st =
     TextureLoader_load url (case fallbackColor of None \<Rightarrow> 0x888888 | Some c \<Rightarrow> c) st"

datatype outcome = Loaded | Failed

text \<open>The oldest pending load comes to its end.\<close>

definition settle :: "outcome \<Rightarrow> loader \<Rightarrow> loader" where
  "settle out st =
     (case pending st of
        [] \<Rightarrow> st
      | (t, url, colour) # rest \<Rightarrow>
          (let st1 = st\<lparr>pending := rest\<rparr>
           in case out of
                Loaded \<Rightarrow> st1\<lparr>textures := (textures st1)[t := Bitmap url]\<rparr>
              | Failed \<Rightarrow> snd (on_error colour st1)))"

text \<open>What a material whose \<open>map\<close> is texture \<open>t\<close> samples.\<close>

definition texture_image :: "loader \<Rightarrow> nat \<Rightarrow> image option" where
  "texture_image st t = (if t < length (textures st) then Some (textures st ! t) else None)"

section \<open>The camera controller\<close>

text \<open>
  Modelled from the spec: the state of the orbit camera controller. \<open>OrbitControls\<close> is
  imported from three.js's add-ons and its code is not among the sources; the programs
  only configure it. The spec says of it that it keeps a distance from a fixed target,
  damps toward the latest user-commanded values every frame, and clamps the distance to
  a configured [min, max] range.
\<close>

record controls =
  minDistance :: real
  maxDistance :: real
  dampingFactor :: real
  camera_distance :: real
  commanded_distance :: real

definition clamp :: "real \<Rightarrow> real \<Rightarrow> real \<Rightarrow> real" where
  "clamp lo hi x = max lo (min hi x)"

text \<open>
  Modelled from the spec: the controller's step of every frame (\<open>controls.update()\<close>,
  missing from the sources). The distance moves toward the commanded one by the damping
  factor and is clamped to the configured range.
\<close>

definition controls_update :: "controls \<Rightarrow> controls" where
  "controls_update c =
     c\<lparr>camera_distance :=
         clamp (minDistance c) (maxDistance c)
           (camera_distance c + dampingFactor c * (commanded_distance c - camera_distance c))\<rparr>"

text \<open>
  Modelled from the spec: a zoom input (the controller's wheel and pinch handlers,
  missing from the sources). It scales the commanded distance and leaves the camera
  where it is until the next update.
\<close>

definition zoom_input :: "real \<Rightarrow> controls \<Rightarrow> controls" where
  "zoom_input factor c = c\<lparr>commanded_distance := commanded_distance c * factor\<rparr>"

datatype controls_event = Zoom real | Update

definition controls_step :: "controls_event \<Rightarrow> controls \<Rightarrow> controls" where
  "controls_step e c = (case e of Zoom f \<Rightarrow> zoom_input f c | Update \<Rightarrow> controls_update c)"

definition run_controls :: "controls_event list \<Rightarrow> controls \<Rightarrow> controls" where
  "run_controls es c = fold controls_step es c"

text \<open>
  The set-up of both programs of part\_000 (lines 24-31 and 293-302): damping 0.05,
  distances 15 and 2000, the camera put at (0, 200, 400) with the target at the origin,
  then \<open>controls.update()\<close>.
\<close>

definition controls_solar :: controls where
  "controls_solar =
     controls_update
       \<lparr>minDistance = 15, maxDistance = 2000, dampingFactor = 0.05,
        camera_distance = sqrt (0\<^sup>2 + 200\<^sup>2 + 400\<^sup>2),
        commanded_distance = sqrt (0\<^sup>2 + 200\<^sup>2 + 400\<^sup>2)\<rparr>"

section \<open>The plain solar system: what a frame keeps and what it changes\<close>

lemma length_create_planets: "length (create_planets ps) = length ps"
  by (simp add: create_planets_def)

lemma nth_create_planets:
  "i < length ps \<Longrightarrow> create_planets ps ! i = create_planet (ps ! i) i"
  by (simp add: create_planets_def nth_enumerate_eq)

lemma planetGroups_animate1:
  "planetGroups (animate1 t s) = map animate_planet (planetGroups s)"
  by (simp add: animate1_def Let_def)

lemma planetGroups_run_frames1:
  "planetGroups (run_frames1 ts s) = map (animate_planet ^^ length ts) (planetGroups s)"
proof (induction ts arbitrary: s)
  case Nil
  show ?case by (simp add: run_frames1_def)
next
  case (Cons t ts)
  have "planetGroups (run_frames1 (t # ts) s) = planetGroups (run_frames1 ts (animate1 t s))"
    by (simp add: run_frames1_def)
  also have "\<dots> = map (animate_planet ^^ length ts) (map animate_planet (planetGroups s))"
    by (simp add: Cons.IH planetGroups_animate1)
  also have "\<dots> = map (animate_planet ^^ length (t # ts)) (planetGroups s)"
    by (simp add: funpow_swap1)
  finally show ?case .
qed

lemma params_animate_planet: "params (animate_planet pg) = params pg"
  by (simp add: animate_planet_def spin_mesh_def set_orbit_rotation_def accumulate_angle_def)

lemma angle_animate_planet: "angle (animate_planet pg) = angle pg + orbitSpeed (params pg)"
  by (simp add: animate_planet_def spin_mesh_def set_orbit_rotation_def accumulate_angle_def)

lemma params_funpow: "params ((animate_planet ^^ k) pg) = params pg"
  by (induction k) (simp_all add: params_animate_planet)

lemma angle_funpow:
  "angle ((animate_planet ^^ k) pg) = angle pg + real k * orbitSpeed (params pg)"
  by (induction k) (simp_all add: angle_animate_planet params_funpow algebra_simps)

lemma length_planetParams: "length planetParams = 9"
  by (simp add: planetParams_def)

lemma nth_planetGroups_run_frames1:
  assumes "i < length planetParams"
  shows "planetGroups (run_frames1 ts scene1_init) ! i
           = (animate_planet ^^ length ts) (create_planet (planetParams ! i) i)"
  using assms
  by (simp add: planetGroups_run_frames1 scene1_init_def length_create_planets
      nth_create_planets)

lemma angle_after_frames1:
  assumes "i < length planetParams"
  shows "angle (planetGroups (run_frames1 ts scene1_init) ! i)
           = real i * pi / 4 + real (length ts) * orbitSpeed (planetParams ! i)"
  by (simp add: nth_planetGroups_run_frames1 [OF assms] angle_funpow create_planet_def)

section \<open>The detailed solar system: what a frame keeps and what it changes\<close>

lemma planets_animate2: "planets (animate2 t s) = map animate_planet2 (planets s)"
  by (simp add: animate2_def Let_def)

lemma planets_run_frames2:
  "planets (run_frames2 ts s) = map (animate_planet2 ^^ length ts) (planets s)"
proof (induction ts arbitrary: s)
  case Nil
  show ?case by (simp add: run_frames2_def)
next
  case (Cons t ts)
  have "planets (run_frames2 (t # ts) s) = planets (run_frames2 ts (animate2 t s))"
    by (simp add: run_frames2_def)
  also have "\<dots> = map (animate_planet2 ^^ length ts) (map animate_planet2 (planets s))"
    by (simp add: Cons.IH planets_animate2)
  also have "\<dots> = map (animate_planet2 ^^ length (t # ts)) (planets s)"
    by (simp add: funpow_swap1)
  finally show ?case .
qed

lemma data_apply_axial_tilt:
  "name (data (apply_axial_tilt p)) = name (data p)"
  "size_p (data (apply_axial_tilt p)) = size_p (data p)"
  "distance (data (apply_axial_tilt p)) = distance (data p)"
  "orbitalPeriod (data (apply_axial_tilt p)) = orbitalPeriod (data p)"
  "rotationPeriod (data (apply_axial_tilt p)) = rotationPeriod (data p)"
  "axialTilt (data (apply_axial_tilt p)) = axialTilt (data p)"
  "moon (data (apply_axial_tilt p)) = moon (data p)"
  "orbitGroup (apply_axial_tilt p) = orbitGroup p"
  by (simp_all add: apply_axial_tilt_def Let_def split: option.splits)

lemma data_orbit_step:
  "data (orbit_step p) = data p"
  "mesh (orbit_step p) = mesh p"
  "rotation_y (orbitGroup (orbit_step p)) = rotation_y (orbitGroup p) + 0.005 / orbitalPeriod (data p)"
  by (simp_all add: orbit_step_def)

lemma data_self_rotation:
  "data (self_rotation p) = data p"
  "orbitGroup (self_rotation p) = orbitGroup p"
  by (simp_all add: self_rotation_def)

lemma data_clouds_rotation:
  "name (data (clouds_rotation p)) = name (data p)"
  "size_p (data (clouds_rotation p)) = size_p (data p)"
  "distance (data (clouds_rotation p)) = distance (data p)"
  "orbitalPeriod (data (clouds_rotation p)) = orbitalPeriod (data p)"
  "rotationPeriod (data (clouds_rotation p)) = rotationPeriod (data p)"
  "axialTilt (data (clouds_rotation p)) = axialTilt (data p)"
  "moon (data (clouds_rotation p)) = moon (data p)"
  "orbitGroup (clouds_rotation p) = orbitGroup p"
  "mesh (clouds_rotation p) = mesh p"
  by (simp_all add: clouds_rotation_def split: option.splits)

lemma data_animate_moon:
  "name (data (animate_moon p)) = name (data p)"
  "size_p (data (animate_moon p)) = size_p (data p)"
  "distance (data (animate_moon p)) = distance (data p)"
  "orbitalPeriod (data (animate_moon p)) = orbitalPeriod (data p)"
  "rotationPeriod (data (animate_moon p)) = rotationPeriod (data p)"
  "axialTilt (data (animate_moon p)) = axialTilt (data p)"
  "cloudsMesh (data (animate_moon p)) = cloudsMesh (data p)"
  "nightLightsMesh (data (animate_moon p)) = nightLightsMesh (data p)"
  "orbitGroup (animate_moon p) = orbitGroup p"
  "mesh (animate_moon p) = mesh p"
  by (simp_all add: animate_moon_def Let_def split: option.splits)

lemma static_animate_planet2:
  "name (data (animate_planet2 p)) = name (data p)"
  "size_p (data (animate_planet2 p)) = size_p (data p)"
  "distance (data (animate_planet2 p)) = distance (data p)"
  "orbitalPeriod (data (animate_planet2 p)) = orbitalPeriod (data p)"
  "rotationPeriod (data (animate_planet2 p)) = rotationPeriod (data p)"
  "axialTilt (data (animate_planet2 p)) = axialTilt (data p)"
  by (simp_all add: animate_planet2_def data_animate_moon data_clouds_rotation
      data_self_rotation data_orbit_step data_apply_axial_tilt)

lemma orbit_rotation_animate_planet2:
  "rotation_y (orbitGroup (animate_planet2 p))
     = rotation_y (orbitGroup p) + 0.005 / orbitalPeriod (data p)"
  by (simp add: animate_planet2_def data_animate_moon data_clouds_rotation
      data_self_rotation data_orbit_step data_apply_axial_tilt)

lemma length_planetsData: "length planetsData = 8"
  by (simp add: planetsData_def)

lemma earth_data:
  "name (planetsData ! 2) = ''Earth''"
  "orbitalPeriod (planetsData ! 2) = 1"
  "rotationPeriod (planetsData ! 2) = 1"
  "axialTilt (planetsData ! 2) = 23.5"
  "distance (planetsData ! 2) = 120"
  "cloudsTexture (planetsData ! 2) \<noteq> None"
  "nightTexture (planetsData ! 2) \<noteq> None"
  by (simp_all add: planetsData_def mkData_def)

lemma nth_planets_init:
  "i < length planetsData \<Longrightarrow> planets scene2_init ! i = create_planet2 (planetsData ! i)"
  by (simp add: scene2_init_def)

lemma create_planet2_simps:
  "orbitGroup (create_planet2 d) = new_Object3D"
  "mesh (create_planet2 d) = new_Object3D\<lparr>position_x := distance d\<rparr>"
  "name (data (create_planet2 d)) = name d"
  "size_p (data (create_planet2 d)) = size_p d"
  "distance (data (create_planet2 d)) = distance d"
  "orbitalPeriod (data (create_planet2 d)) = orbitalPeriod d"
  "rotationPeriod (data (create_planet2 d)) = rotationPeriod d"
  "axialTilt (data (create_planet2 d)) = axialTilt d"
  "moon (data (create_planet2 d)) = (if name d = ''Earth'' then Some create_moon else moon d)"
  by (simp_all add: create_planet2_def Let_def)

lemma static_funpow2:
  "size_p (data ((animate_planet2 ^^ k) p)) = size_p (data p)"
  "distance (data ((animate_planet2 ^^ k) p)) = distance (data p)"
  "orbitalPeriod (data ((animate_planet2 ^^ k) p)) = orbitalPeriod (data p)"
  "name (data ((animate_planet2 ^^ k) p)) = name (data p)"
  "axialTilt (data ((animate_planet2 ^^ k) p)) = axialTilt (data p)"
  by (induction k) (simp_all add: static_animate_planet2)

lemma orbit_rotation_funpow2:
  "rotation_y (orbitGroup ((animate_planet2 ^^ k) p))
     = rotation_y (orbitGroup p) + real k * (0.005 / orbitalPeriod (data p))"
  by (induction k)
    (simp_all add: orbit_rotation_animate_planet2 static_funpow2 add_divide_distrib)

lemma nth_planets_run_frames2:
  assumes "j < length planetsData"
  shows "planets (run_frames2 ts scene2_init) ! j
           = (animate_planet2 ^^ length ts) (create_planet2 (planetsData ! j))"
  using assms by (simp add: planets_run_frames2 scene2_init_def)

section \<open>Accumulated angles\<close>

lemma cong_2pi_stagger: "cong_2pi (real i * pi / 4 + x) x \<longleftrightarrow> i mod 8 = 0"
proof
  assume "cong_2pi (real i * pi / 4 + x) x"
  then obtain n :: int where "real i * pi / 4 = 2 * pi * of_int n"
    by (auto simp: cong_2pi_def)
  then have "real i = 8 * of_int n" by simp
  then have "int i = 8 * n" by linarith
  then show "i mod 8 = 0" by presburger
next
  assume "i mod 8 = 0"
  then obtain m where m: "i = 8 * m" by auto
  have "real i * pi / 4 + x - x = 2 * pi * of_int (int m)"
    by (simp add: m)
  then show "cong_2pi (real i * pi / 4 + x) x"
    unfolding cong_2pi_def by blast
qed

lemma animate1_timestamp: "animate1 t s = animate1 t' s"
  by (simp add: animate1_def)

lemma run_frames1_timestamps:
  "length ts = length ts' \<Longrightarrow> run_frames1 ts s = run_frames1 ts' s"
proof (induction ts ts' arbitrary: s rule: list_induct2)
  case Nil
  show ?case by simp
next
  case (Cons t ts t' ts')
  have "run_frames1 (t # ts) s = run_frames1 ts (animate1 t s)"
    by (simp add: run_frames1_def)
  also have "\<dots> = run_frames1 ts' (animate1 t s)"
    by (rule Cons.IH)
  also have "\<dots> = run_frames1 ts' (animate1 t' s)"
    by (simp only: animate1_timestamp [of t s t'])
  also have "\<dots> = run_frames1 (t' # ts') s"
    by (simp add: run_frames1_def)
  finally show ?case .
qed

lemma animate2_timestamp: "animate2 t s = animate2 t' s"
  by (simp add: animate2_def)

lemma run_frames2_timestamps:
  "length ts = length ts' \<Longrightarrow> run_frames2 ts s = run_frames2 ts' s"
proof (induction ts ts' arbitrary: s rule: list_induct2)
  case Nil
  show ?case by simp
next
  case (Cons t ts t' ts')
  have "run_frames2 (t # ts) s = run_frames2 ts (animate2 t s)"
    by (simp add: run_frames2_def)
  also have "\<dots> = run_frames2 ts' (animate2 t s)"
    by (rule Cons.IH)
  also have "\<dots> = run_frames2 ts' (animate2 t' s)"
    by (simp only: animate2_timestamp [of t s t'])
  also have "\<dots> = run_frames2 (t' # ts') s"
    by (simp add: run_frames2_def)
  finally show ?case .
qed

text \<open>
  C1 (as amended). In the plain solar system the body with index \<open>i\<close> starts at the
  angle \<open>i * Math.PI / 4\<close>, and a frame does one \<open>angle += orbitSpeed\<close> for every body, from
  whatever state it runs in, with the \<open>orbitSpeed\<close> of the body's \<open>params\<close>, which stay
  the ones of the table. No frame reads its time stamp: two frames with different time
  stamps give the same state, and so do two runs of the same number of frames. In the
  detailed solar system the orbit groups start at 0 and a frame does one
  \<open>rotation.y += 0.005 / orbitalPeriod\<close>, in the same way.
\<close>

theorem orbital_angle_one_step_per_frame:
  assumes "i < length planetParams" and "j < length planetsData"
    and "n < length (planetGroups s)" and "m < length (planets s2)"
    and "length ts = length ts'"
  shows "angle (planetGroups scene1_init ! i) = real i * pi / 4
         \<and> params (planetGroups (run_frames1 ts scene1_init) ! i) = planetParams ! i
         \<and> angle (planetGroups (animate1 t s) ! n)
             = angle (planetGroups s ! n) + orbitSpeed (params (planetGroups s ! n))
         \<and> params (planetGroups (animate1 t s) ! n) = params (planetGroups s ! n)
         \<and> animate1 t s = animate1 t' s
         \<and> run_frames1 ts s = run_frames1 ts' s
         \<and> rotation_y (orbitGroup (planets scene2_init ! j)) = 0
         \<and> orbitalPeriod (data (planets (run_frames2 ts scene2_init) ! j))
             = orbitalPeriod (planetsData ! j)
         \<and> rotation_y (orbitGroup (planets (animate2 t s2) ! m))
             = rotation_y (orbitGroup (planets s2 ! m))
               + 0.005 / orbitalPeriod (data (planets s2 ! m))
         \<and> animate2 t s2 = animate2 t' s2
         \<and> run_frames2 ts s2 = run_frames2 ts' s2"
proof -
  have a1: "angle (planetGroups scene1_init ! i) = real i * pi / 4"
    using assms(1)
    by (simp add: scene1_init_def nth_create_planets create_planet_def)
  have a2: "params (planetGroups (run_frames1 ts scene1_init) ! i) = planetParams ! i"
    by (simp add: nth_planetGroups_run_frames1 [OF assms(1)] params_funpow create_planet_def)
  have a3: "angle (planetGroups (animate1 t s) ! n)
             = angle (planetGroups s ! n) + orbitSpeed (params (planetGroups s ! n))"
    using assms(3) by (simp add: planetGroups_animate1 angle_animate_planet)
  have a4: "params (planetGroups (animate1 t s) ! n) = params (planetGroups s ! n)"
    using assms(3) by (simp add: planetGroups_animate1 params_animate_planet)
  have b1: "rotation_y (orbitGroup (planets scene2_init ! j)) = 0"
    using assms(2)
    by (simp add: nth_planets_init create_planet2_simps new_Object3D_def)
  have b2: "orbitalPeriod (data (planets (run_frames2 ts scene2_init) ! j))
             = orbitalPeriod (planetsData ! j)"
    by (simp add: nth_planets_run_frames2 [OF assms(2)] static_funpow2 create_planet2_simps)
  have b3: "rotation_y (orbitGroup (planets (animate2 t s2) ! m))
             = rotation_y (orbitGroup (planets s2 ! m))
               + 0.005 / orbitalPeriod (data (planets s2 ! m))"
    using assms(4) by (simp add: planets_animate2 orbit_rotation_animate_planet2)
  note c1 = animate1_timestamp [of t s t'] run_frames1_timestamps [OF assms(5), of s]
  note c2 = animate2_timestamp [of t s2 t'] run_frames2_timestamps [OF assms(5), of s2]
  from a1 a2 a3 a4 b1 b2 b3 c1 c2 show ?thesis by blast
qed

theorem orbital_angle_one_step_per_frame_witness:
  "2 < length planetParams \<and> 2 < length planetsData
   \<and> 1 < length (planetGroups scene1_init) \<and> 2 < length (planets scene2_init)
   \<and> length [0, 16::real] = length [5, 100::real]
   \<and> angle (planetGroups scene1_init ! 2) = 2 * pi / 4
   \<and> angle (planetGroups (animate1 16 scene1_init) ! 1) = 1 * pi / 4 + 0.007
   \<and> run_frames1 [0, 16] scene1_init = run_frames1 [5, 100] scene1_init
   \<and> rotation_y (orbitGroup (planets (animate2 16 scene2_init) ! 2)) = 0 + 0.005 / 1"
proof -
  have h1: "(2::nat) < length planetParams" by (simp add: length_planetParams)
  have h2: "(2::nat) < length planetsData" by (simp add: length_planetsData)
  have h3: "1 < length (planetGroups scene1_init)"
    by (simp add: scene1_init_def length_create_planets length_planetParams)
  have h4: "2 < length (planets scene2_init)"
    by (simp add: scene2_init_def length_planetsData)
  have h5: "length [0, 16::real] = length [5, 100::real]" by simp
  have venus: "angle (planetGroups scene1_init ! 1) = 1 * pi / 4"
    "orbitSpeed (params (planetGroups scene1_init ! 1)) = 0.007"
    by (simp_all add: scene1_init_def nth_create_planets length_planetParams
        create_planet_def, simp add: planetParams_def mkParam_def)
  have earth: "rotation_y (orbitGroup (planets scene2_init ! 2)) = 0"
    "orbitalPeriod (data (planets scene2_init ! 2)) = 1"
    by (simp_all add: nth_planets_init length_planetsData create_planet2_simps
        new_Object3D_def earth_data)
  note r = orbital_angle_one_step_per_frame [OF h1 h2 h3 h4 h5, where t = 16 and t' = 100]
  from r have a: "angle (planetGroups scene1_init ! 2) = real 2 * pi / 4" by blast
  from r have b: "angle (planetGroups (animate1 16 scene1_init) ! 1)
      = angle (planetGroups scene1_init ! 1) + orbitSpeed (params (planetGroups scene1_init ! 1))"
    by blast
  from r have c: "run_frames1 [0, 16] scene1_init = run_frames1 [5, 100] scene1_init"
    by blast
  from r have d: "rotation_y (orbitGroup (planets (animate2 16 scene2_init) ! 2))
      = rotation_y (orbitGroup (planets scene2_init ! 2))
        + 0.005 / orbitalPeriod (data (planets scene2_init ! 2))"
    by blast
  from a have a': "angle (planetGroups scene1_init ! 2) = 2 * pi / 4" by simp
  from b have b': "angle (planetGroups (animate1 16 scene1_init) ! 1) = 1 * pi / 4 + 0.007"
    by (simp only: venus)
  from d have d': "rotation_y (orbitGroup (planets (animate2 16 scene2_init) ! 2)) = 0 + 0.005 / 1"
    by (simp only: earth)
  from h1 h2 h3 h4 h5 a' b' c d' show ?thesis by blast
qed

text \<open>
  C1 as stated fails: after one frame Venus (index 1, \<open>orbitSpeed\<close> 0.007) is at
  \<open>pi / 4 + 0.007\<close>, which is not \<open>1 * 0.007\<close> modulo a full turn.
\<close>

theorem orbital_angle_counterexample:
  "\<not> cong_2pi (angle (planetGroups (run_frames1 [16] scene1_init) ! 1))
       (1 * orbitSpeed (planetParams ! 1))"
proof -
  have h: "(1::nat) < length planetParams" by (simp add: length_planetParams)
  have "angle (planetGroups (run_frames1 [16] scene1_init) ! 1)
          = real 1 * pi / 4 + 1 * orbitSpeed (planetParams ! 1)"
    using angle_after_frames1 [OF h, of "[16]"] by simp
  then show ?thesis
    using cong_2pi_stagger [of 1 "1 * orbitSpeed (planetParams ! 1)"] by simp
qed

section \<open>Orbit groups: assignment in one program, increment in the other\<close>

lemma set_orbit_rotation_idem:
  "set_orbit_rotation (set_orbit_rotation pg) = set_orbit_rotation pg"
  by (simp add: set_orbit_rotation_def)

lemma rotation_animate_planet:
  "rotation_y (orbitGroup (animate_planet pg)) = angle (animate_planet pg)"
  by (simp add: animate_planet_def spin_mesh_def set_orbit_rotation_def accumulate_angle_def)

lemma rotation_after_frames1:
  assumes "ts \<noteq> []" and "pg \<in> set (planetGroups (run_frames1 ts s))"
  shows "rotation_y (orbitGroup pg) = angle pg"
proof -
  from assms(1) obtain k where k: "length ts = Suc k"
    by (cases ts) auto
  from assms(2) obtain pg0 where "pg = (animate_planet ^^ Suc k) pg0"
    by (auto simp: planetGroups_run_frames1 k simp del: funpow.simps)
  then have "pg = animate_planet ((animate_planet ^^ k) pg0)" by simp
  then show ?thesis by (simp only: rotation_animate_planet)
qed

text \<open>
  C2 (as amended). In the plain solar system the orbit group's rotation is assigned the
  accumulated angle: the assignment is idempotent, and after every frame the rotation
  of each orbit group equals its body's accumulated angle. In the detailed solar system
  there is no separate accumulated angle: every frame adds \<open>0.005 / orbitalPeriod\<close> to the
  orbit group's rotation itself.
\<close>

theorem orbit_group_rotation:
  "set_orbit_rotation (set_orbit_rotation pg) = set_orbit_rotation pg
   \<and> (ts \<noteq> [] \<longrightarrow>
        (\<forall>g \<in> set (planetGroups (run_frames1 ts s)). rotation_y (orbitGroup g) = angle g))
   \<and> rotation_y (orbitGroup (animate_planet2 p))
        = rotation_y (orbitGroup p) + 0.005 / orbitalPeriod (data p)"
  using rotation_after_frames1 [of ts _ s]
  by (simp add: set_orbit_rotation_idem orbit_rotation_animate_planet2)

theorem orbit_group_rotation_witness:
  "[16::real] \<noteq> []
   \<and> rotation_y (orbitGroup (planetGroups (run_frames1 [16] scene1_init) ! 2))
       = angle (planetGroups (run_frames1 [16] scene1_init) ! 2)
   \<and> rotation_y (orbitGroup (planetGroups (run_frames1 [16] scene1_init) ! 2))
       = 2 * pi / 4 + 0.006
   \<and> rotation_y (orbitGroup (animate_planet2 (planets scene2_init ! 2))) = 0.005"
proof -
  note r = orbit_group_rotation [of _ "[16]" scene1_init "planets scene2_init ! 2"]
  have h: "(2::nat) < length planetParams" by (simp add: length_planetParams)
  have m: "planetGroups (run_frames1 [16] scene1_init) ! 2
             \<in> set (planetGroups (run_frames1 [16] scene1_init))"
    by (simp add: planetGroups_run_frames1 scene1_init_def length_create_planets
        length_planetParams)
  from r m have a: "rotation_y (orbitGroup (planetGroups (run_frames1 [16] scene1_init) ! 2))
       = angle (planetGroups (run_frames1 [16] scene1_init) ! 2)"
    by blast
  have v: "angle (planetGroups (run_frames1 [16] scene1_init) ! 2) = 2 * pi / 4 + 0.006"
    by (simp add: angle_after_frames1 [OF h] planetParams_def mkParam_def)
  from r have "rotation_y (orbitGroup (animate_planet2 (planets scene2_init ! 2)))
        = rotation_y (orbitGroup (planets scene2_init ! 2))
          + 0.005 / orbitalPeriod (data (planets scene2_init ! 2))"
    by blast
  then have b: "rotation_y (orbitGroup (animate_planet2 (planets scene2_init ! 2))) = 0.005"
    by (simp add: nth_planets_init length_planetsData create_planet2_simps earth_data
        new_Object3D_def)
  from a v b show ?thesis by simp
qed

text \<open>
  C2 as stated fails in the detailed solar system: doing the orbit statement of Earth's
  entry a second time changes the orbit group's rotation again.
\<close>

theorem orbit_group_rotation_counterexample:
  "orbit_step (orbit_step (planets scene2_init ! 2)) \<noteq> orbit_step (planets scene2_init ! 2)"
proof
  assume "orbit_step (orbit_step (planets scene2_init ! 2)) = orbit_step (planets scene2_init ! 2)"
  then have "rotation_y (orbitGroup (orbit_step (orbit_step (planets scene2_init ! 2))))
               = rotation_y (orbitGroup (orbit_step (planets scene2_init ! 2)))"
    by simp
  then show False
    by (simp add: data_orbit_step nth_planets_init length_planetsData create_planet2_simps
        earth_data)
qed

section \<open>The axial tilt\<close>

lemma apply_axial_tilt_idem: "apply_axial_tilt (apply_axial_tilt p) = apply_axial_tilt p"
  by (simp add: apply_axial_tilt_def Let_def split: option.splits)

lemma tilt_animate_planet2:
  "rotation_x (mesh (animate_planet2 p)) = axialTilt (data p) * pi / 180"
  by (simp add: animate_planet2_def data_animate_moon data_clouds_rotation
      self_rotation_def data_orbit_step apply_axial_tilt_def Let_def split: option.splits)

lemma shells_apply_axial_tilt:
  "cloudsMesh (data (apply_axial_tilt p)) = Some c \<Longrightarrow> rotation_x c = axialTilt (data p) * pi / 180"
  "nightLightsMesh (data (apply_axial_tilt p)) = Some n \<Longrightarrow> rotation_x n = axialTilt (data p) * pi / 180"
  by (auto simp add: apply_axial_tilt_def Let_def split: option.splits)

lemma shells_animate_planet2:
  "cloudsMesh (data (animate_planet2 p)) = Some c \<Longrightarrow> rotation_x c = axialTilt (data p) * pi / 180"
  "nightLightsMesh (data (animate_planet2 p)) = Some n \<Longrightarrow> rotation_x n = axialTilt (data p) * pi / 180"
proof -
  let ?q = "apply_axial_tilt p"
  have d: "data (self_rotation (orbit_step ?q)) = data ?q"
    by (simp add: data_self_rotation data_orbit_step)
  {
    assume "cloudsMesh (data (animate_planet2 p)) = Some c"
    then have "cloudsMesh (data (clouds_rotation (self_rotation (orbit_step ?q)))) = Some c"
      by (simp add: animate_planet2_def data_animate_moon)
    then obtain c0 where "cloudsMesh (data ?q) = Some c0" "rotation_x c = rotation_x c0"
      by (auto simp add: clouds_rotation_def d split: option.splits)
    then show "rotation_x c = axialTilt (data p) * pi / 180"
      using shells_apply_axial_tilt(1) by simp
  }
  {
    assume "nightLightsMesh (data (animate_planet2 p)) = Some n"
    then have "nightLightsMesh (data (clouds_rotation (self_rotation (orbit_step ?q)))) = Some n"
      by (simp add: animate_planet2_def data_animate_moon)
    then have "nightLightsMesh (data ?q) = Some n"
      by (auto simp add: clouds_rotation_def d split: option.splits)
    then show "rotation_x n = axialTilt (data p) * pi / 180"
      using shells_apply_axial_tilt(2) by simp
  }
qed

lemma tilt_after_frames2:
  assumes "j < length planetsData" and "ts \<noteq> []"
  shows "rotation_x (mesh (planets (run_frames2 ts scene2_init) ! j))
           = axialTilt (planetsData ! j) * pi / 180"
proof -
  from assms(2) obtain k where k: "length ts = Suc k" by (cases ts) auto
  have "planets (run_frames2 ts scene2_init) ! j
          = animate_planet2 ((animate_planet2 ^^ k) (create_planet2 (planetsData ! j)))"
    by (simp add: nth_planets_run_frames2 [OF assms(1)] k)
  then show ?thesis
    by (simp add: tilt_animate_planet2 static_funpow2 create_planet2_simps)
qed

text \<open>
  C10. In the detailed solar system every frame assigns \<open>axialTilt * pi / 180\<close> to the
  planet mesh's \<open>rotation.x\<close> (and to the cloud and night-light shells where the planet has
  them): the assignment is idempotent, and after one frame or more the mesh's tilt is
  that constant, however many frames have run.
\<close>

theorem axial_tilt_constant:
  assumes "j < length planetsData" and "ts \<noteq> []"
  shows "rotation_x (mesh (planets (run_frames2 ts scene2_init) ! j))
           = axialTilt (planetsData ! j) * pi / 180
         \<and> rotation_x (mesh (animate_planet2 p)) = axialTilt (data p) * pi / 180
         \<and> apply_axial_tilt (apply_axial_tilt p) = apply_axial_tilt p
         \<and> (\<forall>c. cloudsMesh (data (animate_planet2 p)) = Some c
                \<longrightarrow> rotation_x c = axialTilt (data p) * pi / 180)
         \<and> (\<forall>n. nightLightsMesh (data (animate_planet2 p)) = Some n
                \<longrightarrow> rotation_x n = axialTilt (data p) * pi / 180)"
  using tilt_after_frames2 [OF assms] shells_animate_planet2 [of p]
  by (simp add: tilt_animate_planet2 apply_axial_tilt_idem)

theorem axial_tilt_constant_witness:
  "1 < length planetsData \<and> [0, 16, 33::real] \<noteq> []
   \<and> rotation_x (mesh (planets (run_frames2 [0, 16, 33] scene2_init) ! 1)) = 177.3 * pi / 180
   \<and> rotation_x (mesh (planets (run_frames2 [0] scene2_init) ! 1)) = 177.3 * pi / 180"
proof -
  have h: "1 < length planetsData" by (simp add: length_planetsData)
  have v: "axialTilt (planetsData ! 1) = 177.3"
    by (simp add: planetsData_def mkData_def)
  have n3: "[0, 16, 33::real] \<noteq> []" and n1: "[0::real] \<noteq> []" by simp_all
  from axial_tilt_constant [OF h n3, THEN conjunct1]
  have a: "rotation_x (mesh (planets (run_frames2 [0, 16, 33] scene2_init) ! 1)) = 177.3 * pi / 180"
    by (simp only: v)
  from axial_tilt_constant [OF h n1, THEN conjunct1]
  have b: "rotation_x (mesh (planets (run_frames2 [0] scene2_init) ! 1)) = 177.3 * pi / 180"
    by (simp only: v)
  from h n3 a b show ?thesis by blast
qed

section \<open>The moon\<close>

lemma moon_parent_updates:
  "moon (data (orbit_step p)) = moon (data p)"
  "moon (data (self_rotation p)) = moon (data p)"
  "moon (data (apply_axial_tilt p)) = moon (data p)"
  "moon (data (clouds_rotation p)) = moon (data p)"
  by (simp_all add: data_orbit_step data_self_rotation data_apply_axial_tilt
      data_clouds_rotation)

lemma moon_animate_moon:
  "moon (data (animate_moon p))
     = (if name (data p) = ''Earth'' then map_option moon_step (moon (data p))
        else moon (data p))"
  by (simp add: animate_moon_def split: option.splits)

lemma moon_animate_planet2:
  "moon (data (animate_planet2 p))
     = (if name (data p) = ''Earth'' then map_option moon_step (moon (data p))
        else moon (data p))"
  by (simp add: animate_planet2_def moon_animate_moon data_clouds_rotation
      data_self_rotation data_orbit_step data_apply_axial_tilt)

lemma moon_funpow2:
  "name (data p) = ''Earth'' \<Longrightarrow>
     moon (data ((animate_planet2 ^^ k) p)) = map_option (moon_step ^^ k) (moon (data p))"
proof (induction k)
  case 0
  show ?case by (simp add: option.map_ident)
next
  case (Suc k)
  then show ?case
    by (simp add: moon_animate_planet2 static_funpow2 option.map_comp comp_def)
qed

lemma moon_step_funpow:
  "rotation_y (orbitGroup ((moon_step ^^ k) m)) = rotation_y (orbitGroup m) + real k * 0.02"
  by (induction k) (simp_all add: moon_step_def Let_def algebra_simps)

lemma moon_after_frames2:
  "map_option (\<lambda>m. rotation_y (orbitGroup m))
       (moon (data (planets (run_frames2 ts scene2_init) ! 2)))
     = Some (real (length ts) * 0.02)"
proof -
  have h: "2 < length planetsData" by (simp add: length_planetsData)
  show ?thesis
    by (simp add: nth_planets_run_frames2 [OF h] moon_funpow2 create_planet2_simps
        earth_data moon_step_funpow create_moon_def new_Object3D_def)
qed

lemma earth_moon_world:
  "moon_world_position (planets scene2_init ! 2) = Some (135, 0, 0)"
  "moon_world_position (orbit_step (planets scene2_init ! 2))
     = Some (135 * cos 0.005, 0, - (135 * sin 0.005))"
  by (simp_all add: moon_world_position_def nth_planets_init length_planetsData
      create_planet2_simps earth_data data_orbit_step orbit_step_def create_moon_def
      new_Object3D_def)

lemma sin_step_pos: "0 < sin (0.005::real)"
proof -
  have "(0.005::real) < 2" by simp
  with pi_ge_two have "(0.005::real) < pi" by linarith
  moreover have "(0::real) < 0.005" by simp
  ultimately show ?thesis by (rule sin_gt_zero [rotated])
qed

text \<open>
  C4. The moon's orbit group turns by its own 0.02 every frame. The statements that turn
  the parent (its orbit group, its spin, its tilt, its clouds) leave the moon's entry as
  it is; what the moon's entry is after a frame depends only on what it was before, not
  on any rotation of the parent; after the frames \<open>ts\<close> the rotation of the moon's orbit
  group is \<open>length ts * 0.02\<close>. Turning the parent's orbit group does move the moon in
  the world, through the composition of the transforms.
\<close>

theorem moon_angle_independent:
  "moon (data (orbit_step p)) = moon (data p)
   \<and> moon (data (self_rotation p)) = moon (data p)
   \<and> moon (data (apply_axial_tilt p)) = moon (data p)
   \<and> (name (data p) = name (data q) \<and> moon (data p) = moon (data q)
        \<longrightarrow> moon (data (animate_planet2 p)) = moon (data (animate_planet2 q)))
   \<and> map_option (\<lambda>m. rotation_y (orbitGroup m))
        (moon (data (planets (run_frames2 ts scene2_init) ! 2)))
       = Some (real (length ts) * 0.02)
   \<and> moon_world_position (orbit_step (planets scene2_init ! 2))
       \<noteq> moon_world_position (planets scene2_init ! 2)"
proof -
  have "moon_world_position (orbit_step (planets scene2_init ! 2))
       \<noteq> moon_world_position (planets scene2_init ! 2)"
    using sin_step_pos by (simp add: earth_moon_world)
  then show ?thesis
    by (simp add: moon_parent_updates moon_animate_planet2 moon_after_frames2)
qed

theorem moon_angle_independent_witness:
  "name (data (planets scene2_init ! 2)) = name (data (orbit_step (planets scene2_init ! 2)))
   \<and> moon (data (planets scene2_init ! 2)) = moon (data (orbit_step (planets scene2_init ! 2)))
   \<and> orbitGroup (planets scene2_init ! 2) \<noteq> orbitGroup (orbit_step (planets scene2_init ! 2))
   \<and> moon (data (animate_planet2 (planets scene2_init ! 2)))
       = moon (data (animate_planet2 (orbit_step (planets scene2_init ! 2))))
   \<and> moon (data (animate_planet2 (planets scene2_init ! 2))) = Some (moon_step create_moon)"
proof -
  let ?e = "planets scene2_init ! 2"
  note r = moon_angle_independent [of ?e "orbit_step ?e"]
  have n: "name (data ?e) = name (data (orbit_step ?e))"
    by (simp add: data_orbit_step)
  have m: "moon (data ?e) = moon (data (orbit_step ?e))"
    by (simp add: data_orbit_step)
  have "rotation_y (orbitGroup ?e) \<noteq> rotation_y (orbitGroup (orbit_step ?e))"
    by (simp add: data_orbit_step nth_planets_init length_planetsData create_planet2_simps
        earth_data)
  then have d: "orbitGroup ?e \<noteq> orbitGroup (orbit_step ?e)" by auto
  from r n m have a: "moon (data (animate_planet2 ?e))
       = moon (data (animate_planet2 (orbit_step ?e)))"
    by blast
  have b: "moon (data (animate_planet2 ?e)) = Some (moon_step create_moon)"
    by (simp add: moon_animate_planet2 nth_planets_init length_planetsData
        create_planet2_simps earth_data)
  from n m d a b show ?thesis by blast
qed

section \<open>Growing angles, fixed radii\<close>

lemma planetParams_positive:
  "\<forall>p \<in> set planetParams. 0 < size_p p \<and> 0 < distance p \<and> 0 < orbitSpeed p \<and> orbitSpeed p < 1"
  by (simp add: planetParams_def mkParam_def)

lemma mesh_position_animate_planet:
  "position_x (mesh (animate_planet pg)) = position_x (mesh pg)"
  by (simp add: animate_planet_def spin_mesh_def set_orbit_rotation_def accumulate_angle_def)

lemma mesh_position_funpow:
  "position_x (mesh ((animate_planet ^^ k) pg)) = position_x (mesh pg)"
  by (induction k) (simp_all add: mesh_position_animate_planet)

lemma planetsData_positive:
  "\<forall>d \<in> set planetsData. 0 < size_p d \<and> 0 < distance d \<and> 0 < orbitalPeriod d
      \<and> rotationPeriod d \<noteq> 0"
  by (simp add: planetsData_def mkData_def)

lemma planetsData_step_small:
  "\<forall>d \<in> set planetsData. 0.005 / orbitalPeriod d < 1"
  by (simp add: planetsData_def mkData_def)

lemma moon_angle_grows:
  assumes "length ts < length ts'"
  shows "\<exists>a b. map_option (\<lambda>m. rotation_y (orbitGroup m))
                 (moon (data (planets (run_frames2 ts scene2_init) ! 2))) = Some a
             \<and> map_option (\<lambda>m. rotation_y (orbitGroup m))
                 (moon (data (planets (run_frames2 ts' scene2_init) ! 2))) = Some b
             \<and> a < b"
proof -
  from assms have "real (length ts) * 0.02 < real (length ts') * 0.02" by simp
  with moon_after_frames2 [of ts] moon_after_frames2 [of ts'] show ?thesis by blast
qed

lemma moon_step_angle:
  "rotation_y (orbitGroup (moon_step m)) = rotation_y (orbitGroup m) + 0.02"
  "position_x (mesh (moon_step m)) = position_x (mesh m)"
  by (simp_all add: moon_step_def Let_def)

lemma mesh_position_animate_planet2:
  "position_x (mesh (animate_planet2 p)) = position_x (mesh p)"
  by (simp add: animate_planet2_def data_animate_moon data_clouds_rotation
      self_rotation_def data_orbit_step apply_axial_tilt_def Let_def split: option.splits)

lemma mesh_position_funpow2:
  "position_x (mesh ((animate_planet2 ^^ k) p)) = position_x (mesh p)"
  by (induction k) (simp_all add: mesh_position_animate_planet2)

lemma moon_position_funpow:
  "position_x (mesh ((moon_step ^^ k) m)) = position_x (mesh m)"
  by (induction k) (simp_all add: moon_step_def Let_def)

lemma moon_position_after_frames2:
  "map_option (\<lambda>m. position_x (mesh m))
       (moon (data (planets (run_frames2 ts scene2_init) ! 2))) = Some 15"
proof -
  have h: "2 < length planetsData" by (simp add: length_planetsData)
  show ?thesis
    by (simp add: nth_planets_run_frames2 [OF h] moon_funpow2 create_planet2_simps
        earth_data moon_position_funpow create_moon_def new_Object3D_def)
qed

text \<open>
  C8. In the plain solar system every body's accumulated angle grows with every frame,
  by a step that is positive and less than a full turn; the entry's \<open>params\<close> stay the
  ones of the table, whose \<open>size\<close> (the sphere's radius) and \<open>distance\<close> are positive, and
  the mesh stays at \<open>x = distance\<close>. The same holds in the detailed solar system, where
  the orbit group's rotation is the accumulated angle. There Earth's moon is a body too:
  the rotation of its orbit group grows with every frame, by 0.02 a frame, its sphere
  has the positive radius 1.5, and it stays at 15 from the planet.
\<close>

theorem angle_increasing_radii_fixed:
  assumes "i < length planetParams" and "j < length planetsData"
    and "length ts < length ts'"
  shows "angle (planetGroups (run_frames1 ts scene1_init) ! i)
           < angle (planetGroups (run_frames1 ts' scene1_init) ! i)
         \<and> 0 < orbitSpeed (planetParams ! i) \<and> orbitSpeed (planetParams ! i) < 2 * pi
         \<and> params (planetGroups (run_frames1 ts scene1_init) ! i) = planetParams ! i
         \<and> 0 < size_p (planetParams ! i) \<and> 0 < distance (planetParams ! i)
         \<and> position_x (mesh (planetGroups (run_frames1 ts scene1_init) ! i))
             = distance (planetParams ! i)
         \<and> rotation_y (orbitGroup (planets (run_frames2 ts scene2_init) ! j))
             < rotation_y (orbitGroup (planets (run_frames2 ts' scene2_init) ! j))
         \<and> size_p (data (planets (run_frames2 ts scene2_init) ! j)) = size_p (planetsData ! j)
         \<and> distance (data (planets (run_frames2 ts scene2_init) ! j)) = distance (planetsData ! j)
         \<and> 0 < size_p (planetsData ! j) \<and> 0 < distance (planetsData ! j)
         \<and> position_x (mesh (planets (run_frames2 ts scene2_init) ! j))
             = distance (planetsData ! j)
         \<and> map_option (\<lambda>m. position_x (mesh m))
               (moon (data (planets (run_frames2 ts scene2_init) ! 2))) = Some 15
         \<and> 0 < 0.005 / orbitalPeriod (planetsData ! j)
         \<and> 0.005 / orbitalPeriod (planetsData ! j) < 2 * pi
         \<and> (\<exists>a b. map_option (\<lambda>m. rotation_y (orbitGroup m))
                 (moon (data (planets (run_frames2 ts scene2_init) ! 2))) = Some a
             \<and> map_option (\<lambda>m. rotation_y (orbitGroup m))
                 (moon (data (planets (run_frames2 ts' scene2_init) ! 2))) = Some b
             \<and> a < b)
         \<and> rotation_y (orbitGroup (moon_step mn)) = rotation_y (orbitGroup mn) + 0.02
         \<and> position_x (mesh (moon_step mn)) = position_x (mesh mn)
         \<and> 0 < moon_radius"
proof -
  have pi2: "(1::real) < 2 * pi" using pi_ge_two by linarith
  from assms(1) have "planetParams ! i \<in> set planetParams" by simp
  with planetParams_positive
  have pp: "0 < size_p (planetParams ! i)" "0 < distance (planetParams ! i)"
    "0 < orbitSpeed (planetParams ! i)" "orbitSpeed (planetParams ! i) < 1"
    by blast+
  from assms(2) have "planetsData ! j \<in> set planetsData" by simp
  with planetsData_positive
  have pd: "0 < size_p (planetsData ! j)" "0 < distance (planetsData ! j)"
    "0 < orbitalPeriod (planetsData ! j)"
    by blast+
  from assms(3) have len: "real (length ts) < real (length ts')" by simp
  have a1: "angle (planetGroups (run_frames1 ts scene1_init) ! i)
           < angle (planetGroups (run_frames1 ts' scene1_init) ! i)"
    using len pp(3) by (simp add: angle_after_frames1 [OF assms(1)])
  have a2: "params (planetGroups (run_frames1 ts scene1_init) ! i) = planetParams ! i"
    by (simp add: nth_planetGroups_run_frames1 [OF assms(1)] params_funpow create_planet_def)
  have a3: "position_x (mesh (planetGroups (run_frames1 ts scene1_init) ! i))
             = distance (planetParams ! i)"
    by (simp add: nth_planetGroups_run_frames1 [OF assms(1)] mesh_position_funpow
        create_planet_def new_Object3D_def)
  have "0 < 0.005 / orbitalPeriod (planetsData ! j)" using pd(3) by simp
  with len have "real (length ts) * (0.005 / orbitalPeriod (planetsData ! j))
                  < real (length ts') * (0.005 / orbitalPeriod (planetsData ! j))"
    by (rule mult_strict_right_mono)
  then have b1: "rotation_y (orbitGroup (planets (run_frames2 ts scene2_init) ! j))
             < rotation_y (orbitGroup (planets (run_frames2 ts' scene2_init) ! j))"
    by (simp add: nth_planets_run_frames2 [OF assms(2)] orbit_rotation_funpow2
        create_planet2_simps)
  have b2: "size_p (data (planets (run_frames2 ts scene2_init) ! j)) = size_p (planetsData ! j)"
    "distance (data (planets (run_frames2 ts scene2_init) ! j)) = distance (planetsData ! j)"
    by (simp_all add: nth_planets_run_frames2 [OF assms(2)] static_funpow2 create_planet2_simps)
  have b3: "position_x (mesh (planets (run_frames2 ts scene2_init) ! j))
             = distance (planetsData ! j)"
    by (simp add: nth_planets_run_frames2 [OF assms(2)] mesh_position_funpow2
        create_planet2_simps new_Object3D_def)
  have a4: "orbitSpeed (planetParams ! i) < 2 * pi"
    using pp(4) pi2 by linarith
  have b4: "0 < 0.005 / orbitalPeriod (planetsData ! j)" using pd(3) by simp
  from \<open>planetsData ! j \<in> set planetsData\<close> planetsData_step_small
  have "0.005 / orbitalPeriod (planetsData ! j) < 1" by blast
  with pi2 have b5: "0.005 / orbitalPeriod (planetsData ! j) < 2 * pi" by linarith
  have m1: "map_option (\<lambda>m. position_x (mesh m))
               (moon (data (planets (run_frames2 ts scene2_init) ! 2))) = Some 15"
    by (rule moon_position_after_frames2)
  note m2 = moon_angle_grows [OF assms(3)]
  note m3 = moon_step_angle [of mn]
  have m4: "0 < moon_radius" by (simp add: moon_radius_def)
  have planets1: "angle (planetGroups (run_frames1 ts scene1_init) ! i)
           < angle (planetGroups (run_frames1 ts' scene1_init) ! i)
         \<and> 0 < orbitSpeed (planetParams ! i) \<and> orbitSpeed (planetParams ! i) < 2 * pi
         \<and> params (planetGroups (run_frames1 ts scene1_init) ! i) = planetParams ! i
         \<and> 0 < size_p (planetParams ! i) \<and> 0 < distance (planetParams ! i)
         \<and> position_x (mesh (planetGroups (run_frames1 ts scene1_init) ! i))
             = distance (planetParams ! i)"
    using a1 a2 a3 a4 pp by blast
  have planets2: "rotation_y (orbitGroup (planets (run_frames2 ts scene2_init) ! j))
             < rotation_y (orbitGroup (planets (run_frames2 ts' scene2_init) ! j))
         \<and> size_p (data (planets (run_frames2 ts scene2_init) ! j)) = size_p (planetsData ! j)
         \<and> distance (data (planets (run_frames2 ts scene2_init) ! j)) = distance (planetsData ! j)
         \<and> 0 < size_p (planetsData ! j) \<and> 0 < distance (planetsData ! j)
         \<and> position_x (mesh (planets (run_frames2 ts scene2_init) ! j))
             = distance (planetsData ! j)"
    using b1 b2 b3 pd by blast
  from planets1 planets2 m1 b4 b5 m2 m3 m4 show ?thesis by blast
qed

theorem angle_increasing_radii_fixed_witness:
  "8 < length planetParams \<and> 7 < length planetsData \<and> length [0::real] < length [0, 16::real]
   \<and> angle (planetGroups (run_frames1 [0] scene1_init) ! 8)
       < angle (planetGroups (run_frames1 [0, 16] scene1_init) ! 8)
   \<and> size_p (planetParams ! 8) = 1 \<and> distance (planetParams ! 8) = 335
   \<and> position_x (mesh (planetGroups (run_frames1 [0] scene1_init) ! 8)) = 335
   \<and> rotation_y (orbitGroup (planets (run_frames2 [0] scene2_init) ! 7))
       < rotation_y (orbitGroup (planets (run_frames2 [0, 16] scene2_init) ! 7))
   \<and> position_x (mesh (planets (run_frames2 [0] scene2_init) ! 7)) = 750
   \<and> map_option (\<lambda>m. rotation_y (orbitGroup m))
         (moon (data (planets (run_frames2 [0] scene2_init) ! 2))) = Some 0.02
   \<and> (\<exists>b. map_option (\<lambda>m. rotation_y (orbitGroup m))
               (moon (data (planets (run_frames2 [0, 16] scene2_init) ! 2))) = Some b
           \<and> 0.02 < b)
   \<and> moon_radius = 1.5"
proof -
  have h1: "8 < length planetParams" by (simp add: length_planetParams)
  have h2: "7 < length planetsData" by (simp add: length_planetsData)
  have h3: "length [0::real] < length [0, 16::real]" by simp
  have v: "size_p (planetParams ! 8) = 1" "distance (planetParams ! 8) = 335"
    by (simp_all add: planetParams_def mkParam_def)
  have w: "distance (planetsData ! 7) = 750"
    by (simp add: planetsData_def mkData_def)
  note r = angle_increasing_radii_fixed [OF h1 h2 h3]
  from r have a: "angle (planetGroups (run_frames1 [0] scene1_init) ! 8)
       < angle (planetGroups (run_frames1 [0, 16] scene1_init) ! 8)" by blast
  from r v have b: "position_x (mesh (planetGroups (run_frames1 [0] scene1_init) ! 8)) = 335"
    by simp
  from r have c: "rotation_y (orbitGroup (planets (run_frames2 [0] scene2_init) ! 7))
       < rotation_y (orbitGroup (planets (run_frames2 [0, 16] scene2_init) ! 7))" by blast
  from r w have d: "position_x (mesh (planets (run_frames2 [0] scene2_init) ! 7)) = 750"
    by simp
  have e: "map_option (\<lambda>m. rotation_y (orbitGroup m))
         (moon (data (planets (run_frames2 [0] scene2_init) ! 2))) = Some 0.02"
    using moon_after_frames2 [of "[0]"] by simp
  from r obtain a0 b0 where
    "map_option (\<lambda>m. rotation_y (orbitGroup m))
         (moon (data (planets (run_frames2 [0] scene2_init) ! 2))) = Some a0"
    "map_option (\<lambda>m. rotation_y (orbitGroup m))
         (moon (data (planets (run_frames2 [0, 16] scene2_init) ! 2))) = Some b0"
    "a0 < b0"
    by blast
  with e have f: "\<exists>b. map_option (\<lambda>m. rotation_y (orbitGroup m))
               (moon (data (planets (run_frames2 [0, 16] scene2_init) ! 2))) = Some b
           \<and> 0.02 < b"
    by auto
  have g: "moon_radius = 1.5" by (simp add: moon_radius_def)
  from h1 h2 h3 a b c d v e f g show ?thesis by blast
qed

section \<open>The code-scroll panel\<close>

lemma length_codeLines: "length codeLines = 9"
  by (simp add: codeLines_def)

lemma js_rem_nonneg:
  assumes "0 \<le> a" and "0 < b"
  shows "js_rem a b = a mod b"
proof (cases "a = 0")
  case True
  then show ?thesis by (simp add: js_rem_def)
next
  case False
  with assms have "0 < a" by simp
  with assms(2) show ?thesis by (simp add: js_rem_def)
qed

lemma js_rem_range:
  assumes "0 \<le> a" and "0 < b"
  shows "0 \<le> js_rem a b \<and> js_rem a b < b"
  using assms by (simp add: js_rem_nonneg)

lemma codeScroll_animateCodeOutput: "codeScroll (animateCodeOutput cp) = codeScroll cp"
  by (simp add: animateCodeOutput_def)

lemma codeScroll_timer_fires:
  "codeScroll (timer_fires cp) = js_rem (codeScroll cp + 1) (int (length codeLines))"
  by (simp add: timer_fires_def codeScroll_animateCodeOutput)

lemma codeScroll_range:
  "0 \<le> codeScroll ((timer_fires ^^ n) code_panel_loaded)
   \<and> codeScroll ((timer_fires ^^ n) code_panel_loaded) < int (length codeLines)"
proof (induction n)
  case 0
  show ?case
    by (simp add: code_panel_loaded_def codeScroll_animateCodeOutput length_codeLines)
next
  case (Suc n)
  then have "0 \<le> codeScroll ((timer_fires ^^ n) code_panel_loaded) + 1" by simp
  then show ?case
    using js_rem_range [of "codeScroll ((timer_fires ^^ n) code_panel_loaded) + 1"
        "int (length codeLines)"]
    by (simp add: codeScroll_timer_fires length_codeLines)
qed

lemma codeScroll_value:
  "codeScroll ((timer_fires ^^ n) code_panel_loaded) = int (n mod 9)"
proof (induction n)
  case 0
  show ?case by (simp add: code_panel_loaded_def codeScroll_animateCodeOutput)
next
  case (Suc n)
  have "js_rem (int (n mod 9) + 1) 9 = (int (n mod 9) + 1) mod 9"
    by (rule js_rem_nonneg) simp_all
  also have "\<dots> = int (Suc n mod 9)"
    by (simp add: zmod_int) presburger
  finally show ?case
    by (simp add: codeScroll_timer_fires Suc.IH length_codeLines)
qed

lemma line_index_range:
  assumes "0 \<le> scroll"
  shows "0 \<le> line_index scroll i \<and> line_index scroll i < int (length codeLines)"
  unfolding line_index_def using assms
  by (intro js_rem_range) (simp_all add: length_codeLines)

lemma drawn_lines_animateCodeOutput:
  "drawn_lines (animateCodeOutput cp)
     = map (\<lambda>i. js_index codeLines (line_index (codeScroll cp) i)) [0..<9]"
  by (simp add: animateCodeOutput_def)

lemma drawn_lines_funpow:
  "drawn_lines ((timer_fires ^^ n) code_panel_loaded)
     = map (\<lambda>i. js_index codeLines
                  (line_index (codeScroll ((timer_fires ^^ n) code_panel_loaded)) i)) [0..<9]"
proof (cases n)
  case 0
  then show ?thesis
    by (simp add: code_panel_loaded_def drawn_lines_animateCodeOutput
        codeScroll_animateCodeOutput)
next
  case (Suc k)
  then show ?thesis
    by (simp add: timer_fires_def drawn_lines_animateCodeOutput codeScroll_animateCodeOutput)
qed

text \<open>
  C9. After any number of timer callbacks \<open>codeScroll\<close> lies in \<open>[0, codeLines.length)\<close>;
  each of the nine indices \<open>(codeScroll + i) % codeLines.length\<close> lies in that range too,
  so each of the nine array reads of a repaint finds a line.
\<close>

theorem code_scroll_in_bounds:
  "0 \<le> codeScroll ((timer_fires ^^ n) code_panel_loaded)
   \<and> codeScroll ((timer_fires ^^ n) code_panel_loaded) < int (length codeLines)
   \<and> (\<forall>i < 9.
         0 \<le> line_index (codeScroll ((timer_fires ^^ n) code_panel_loaded)) i
         \<and> line_index (codeScroll ((timer_fires ^^ n) code_panel_loaded)) i < int (length codeLines)
         \<and> js_index codeLines (line_index (codeScroll ((timer_fires ^^ n) code_panel_loaded)) i)
             = Some (codeLines ! nat (line_index (codeScroll ((timer_fires ^^ n) code_panel_loaded)) i)))
   \<and> None \<notin> set (drawn_lines ((timer_fires ^^ n) code_panel_loaded))
   \<and> length (drawn_lines ((timer_fires ^^ n) code_panel_loaded)) = 9"
proof -
  let ?s = "codeScroll ((timer_fires ^^ n) code_panel_loaded)"
  have s: "0 \<le> ?s" "?s < int (length codeLines)"
    using codeScroll_range [of n] by simp_all
  have li: "\<And>i. 0 \<le> line_index ?s i \<and> line_index ?s i < int (length codeLines)"
    using line_index_range [OF s(1)] .
  then have ji: "\<And>i. js_index codeLines (line_index ?s i)
                       = Some (codeLines ! nat (line_index ?s i))"
    by (simp add: js_index_def)
  have "None \<notin> set (drawn_lines ((timer_fires ^^ n) code_panel_loaded))"
    unfolding drawn_lines_funpow by (auto simp: ji)
  moreover have "length (drawn_lines ((timer_fires ^^ n) code_panel_loaded)) = 9"
    unfolding drawn_lines_funpow by simp
  ultimately show ?thesis using s li ji by simp
qed

theorem code_scroll_in_bounds_witness:
  "codeScroll ((timer_fires ^^ 10) code_panel_loaded) = 1
   \<and> (8::nat) < 9
   \<and> line_index (codeScroll ((timer_fires ^^ 10) code_panel_loaded)) 8 = 0
   \<and> js_index codeLines (line_index (codeScroll ((timer_fires ^^ 10) code_panel_loaded)) 8)
       = Some ''def fib(n):''"
proof -
  have v: "codeScroll ((timer_fires ^^ 10) code_panel_loaded) = 1"
    by (simp add: codeScroll_value)
  have l: "line_index 1 8 = 0"
    by (simp add: line_index_def js_rem_def length_codeLines)
  have c: "codeLines ! 0 = ''def fib(n):''" by (simp add: codeLines_def)
  from code_scroll_in_bounds [of 10]
  have "js_index codeLines (line_index (codeScroll ((timer_fires ^^ 10) code_panel_loaded)) 8)
             = Some (codeLines ! nat (line_index (codeScroll ((timer_fires ^^ 10) code_panel_loaded)) 8))"
    by simp
  then show ?thesis by (simp add: v l c)
qed

section \<open>Resizing\<close>

lemma resize_listener_fields:
  "camera_aspect (resize_listener w h d) = js_div w h"
  "projection_aspect (resize_listener w h d) = js_div w h"
  "renderer_size (resize_listener w h d) = (w, h)"
  "composer_size (resize_listener w h d) = composer_size d"
  "frames (resize_listener w h d) = frames d"
  by (simp_all add: resize_listener_def updateProjectionMatrix_def Let_def)

lemma resize_listener_room_fields:
  "camera_aspect (resize_listener_room w h d) = js_div w h"
  "projection_aspect (resize_listener_room w h d) = js_div w h"
  "renderer_size (resize_listener_room w h d) = (w, h)"
  "composer_size (resize_listener_room w h d) = Some (w, h)"
  "frames (resize_listener_room w h d) = frames d"
  by (simp_all add: resize_listener_room_def updateProjectionMatrix_def Let_def)

lemma run_display_append:
  "run_display l (es @ es') d = run_display l es' (run_display l es d)"
  by (simp add: run_display_def)

lemma run_display_resize_frame:
  "run_display l [Resize w h, Frame] d = render_frame (l w h d)"
  by (simp add: run_display_def display_step_def)

lemma js_div_finite: "0 < h \<Longrightarrow> js_div w h = Finite (real w / real h)"
  by (simp add: js_div_def)

text \<open>
  C5. The resize listener sets the camera's aspect to the quotient of the new width and
  height (the real \<open>W / H\<close> when \<open>H\<close> is not 0), recomputes the projection from it and
  sets the renderer's size (in script.js the composer's size too) to exactly \<open>(W, H)\<close>.
  The listener runs to its end before any later frame callback starts: whatever
  happened before, the frame that follows a resize is drawn with these values.
\<close>

theorem resize_updates_before_next_frame:
  "camera_aspect (resize_listener W H d) = js_div W H
   \<and> projection_aspect (resize_listener W H d) = js_div W H
   \<and> renderer_size (resize_listener W H d) = (W, H)
   \<and> camera_aspect (resize_listener_room W H d) = js_div W H
   \<and> projection_aspect (resize_listener_room W H d) = js_div W H
   \<and> renderer_size (resize_listener_room W H d) = (W, H)
   \<and> composer_size (resize_listener_room W H d) = Some (W, H)
   \<and> (0 < H \<longrightarrow> js_div W H = Finite (real W / real H))
   \<and> last (frames (run_display resize_listener (es @ [Resize W H, Frame]) d))
       = (js_div W H, (W, H), composer_size (run_display resize_listener es d))
   \<and> last (frames (run_display resize_listener_room (es @ [Resize W H, Frame]) d))
       = (js_div W H, (W, H), Some (W, H))"
  by (simp add: resize_listener_fields resize_listener_room_fields run_display_append
      run_display_resize_frame render_frame_def js_div_finite)

theorem resize_updates_before_next_frame_witness:
  "(0::nat) < 600
   \<and> camera_aspect (resize_listener 800 600 (display_loaded 1920 1080 False)) = Finite (800 / 600)
   \<and> last (frames (run_display resize_listener_room
                     [Frame, Resize 1024 768, Frame, Resize 800 600, Frame]
                     (display_loaded 1920 1080 True)))
       = (Finite (800 / 600), (800, 600), Some (800, 600))"
proof -
  note r1 = resize_updates_before_next_frame
    [where W = 800 and H = 600 and d = "display_loaded 1920 1080 False" and es = "[]"]
  note r2 = resize_updates_before_next_frame
    [where W = 800 and H = 600 and d = "display_loaded 1920 1080 True"
        and es = "[Frame, Resize 1024 768, Frame]"]
  from r1 have f: "js_div 800 600 = Finite (real 800 / real 600)" by simp
  from r1 have a: "camera_aspect (resize_listener 800 600 (display_loaded 1920 1080 False))
                     = js_div 800 600"
    by blast
  from r2 have b: "last (frames (run_display resize_listener_room
                     ([Frame, Resize 1024 768, Frame] @ [Resize 800 600, Frame])
                     (display_loaded 1920 1080 True)))
       = (js_div 800 600, (800, 600), Some (800, 600))"
    by blast
  from a b show ?thesis by (simp add: f)
qed

section \<open>What a frame does, and in which order\<close>

lemma log1_animate1:
  "log1 (animate1 t s) = log1 s @ [RequestFrame Animate, ControlsUpdate, AngleAccumulation, Render]"
  by (simp add: animate1_def Let_def)

lemma log2_animate2:
  "log2 (animate2 t s) = log2 s @ [RequestFrame Animate, ControlsUpdate, AngleAccumulation, Render]"
  by (simp add: animate2_def Let_def)

lemma animateMatrixRain_effects:
  "log (animateMatrixRain rnd s) = log s @ [CanvasRepaint, RequestFrame AnimateMatrixRain]"
  "raf_queue (animateMatrixRain rnd s) = raf_queue s @ [AnimateMatrixRain]"
  by (simp_all add: animateMatrixRain_def requestAnimationFrame_def Let_def)

lemma animate_room_effects:
  "log (animate_room now s)
     = log s @ [RequestFrame Animate, ControlsUpdate, PoseUpdate, Render]"
  "raf_queue (animate_room now s) = raf_queue s @ [Animate]"
  by (simp_all add: animate_room_def requestAnimationFrame_def Let_def
      split: option.splits prod.splits)

lemma room_loaded_effects:
  "raf_queue (room_loaded drops inp) = [AnimateMatrixRain, Animate]"
  "log (room_loaded drops inp)
     = [CanvasRepaint, RequestFrame AnimateMatrixRain, ControlsUpdate,
        RequestFrame Animate, ControlsUpdate, PoseUpdate, Render]"
  by (simp_all add: room_loaded_def Let_def animate_room_effects animateMatrixRain_effects
      room_built_def)

lemma frame_tick_effects:
  assumes "raf_queue s = [AnimateMatrixRain, Animate]"
  shows "raf_queue (frame_tick inp s) = [AnimateMatrixRain, Animate]"
    and "log (frame_tick inp s)
          = log s @ [CanvasRepaint, RequestFrame AnimateMatrixRain,
                     RequestFrame Animate, ControlsUpdate, PoseUpdate, Render]"
  by (simp_all add: frame_tick_def assms run_callback_def animate_room_effects
      animateMatrixRain_effects)

lemma raf_queue_run_ticks:
  "raf_queue s = [AnimateMatrixRain, Animate]
     \<Longrightarrow> raf_queue (run_ticks inps s) = [AnimateMatrixRain, Animate]"
proof (induction inps arbitrary: s)
  case Nil
  then show ?case by (simp add: run_ticks_def)
next
  case (Cons inp inps)
  have "run_ticks (inp # inps) s = run_ticks inps (frame_tick inp s)"
    by (simp add: run_ticks_def)
  with Cons show ?case by (simp add: frame_tick_effects(1))
qed

lemma frame_tick_log_reachable:
  "log (frame_tick inp (run_ticks inps (room_loaded drops inp0)))
     = log (run_ticks inps (room_loaded drops inp0))
       @ [CanvasRepaint, RequestFrame AnimateMatrixRain,
          RequestFrame Animate, ControlsUpdate, PoseUpdate, Render]"
  by (rule frame_tick_effects(2)) (simp add: raf_queue_run_ticks room_loaded_effects(1))

text \<open>
  C7 (as amended). A frame of either solar system does, in this order: ask for the next
  frame, update the controls, accumulate the angles, render; it repaints no canvas. In
  the room, every tick of the scheduler first runs the matrix-rain callback, which
  repaints the canvas, and then \<open>animate\<close>, which updates the controls, sets the pose from
  the clock and renders; no angle is accumulated there.
\<close>

theorem frame_tick_order:
  "log1 (animate1 t s1)
     = log1 s1 @ [RequestFrame Animate, ControlsUpdate, AngleAccumulation, Render]
   \<and> log2 (animate2 t s2)
     = log2 s2 @ [RequestFrame Animate, ControlsUpdate, AngleAccumulation, Render]
   \<and> log (frame_tick inp (run_ticks inps (room_loaded drops inp0)))
     = log (run_ticks inps (room_loaded drops inp0))
       @ [CanvasRepaint, RequestFrame AnimateMatrixRain,
          RequestFrame Animate, ControlsUpdate, PoseUpdate, Render]
   \<and> frame_work [RequestFrame Animate, ControlsUpdate, AngleAccumulation, Render]
     = [ControlsUpdate, AngleAccumulation, Render]
   \<and> frame_work [CanvasRepaint, RequestFrame AnimateMatrixRain,
                  RequestFrame Animate, ControlsUpdate, PoseUpdate, Render]
     = [CanvasRepaint, ControlsUpdate, Render]"
  by (simp add: log1_animate1 log2_animate2 frame_tick_log_reachable frame_work_def)

text \<open>
  C7 as stated fails: the work done by the first tick of the room after loading is not
  controls, angles, repaint, render in that order.
\<close>

theorem frame_tick_order_counterexample:
  "frame_work (drop (length (log (room_loaded [] (0, sample_draws))))
                 (log (frame_tick (16, sample_draws) (room_loaded [] (0, sample_draws)))))
     \<noteq> stated_order"
proof -
  have "log (frame_tick (16, sample_draws) (room_loaded [] (0, sample_draws)))
          = log (room_loaded [] (0, sample_draws))
            @ [CanvasRepaint, RequestFrame AnimateMatrixRain,
               RequestFrame Animate, ControlsUpdate, PoseUpdate, Render]"
    by (rule frame_tick_effects(2)) (simp add: room_loaded_effects(1))
  then show ?thesis by (simp add: frame_work_def stated_order_def)
qed

section \<open>A texture load that fails\<close>

lemma loadTexture_init:
  "loadTexture url fb loader_init
     = (0, \<lparr>textures = [NoImage],
            pending = [(0, url, case fb of None \<Rightarrow> 0x888888 | Some c \<Rightarrow> c)]\<rparr>)"
  by (simp add: loadTexture_def TextureLoader_load_def new_Texture_def loader_init_def)

text \<open>
  C3, at a load that fails. \<open>loadTexture\<close> has returned texture 0 before the load ends;
  the error callback builds the placeholder as a new texture, number 1, and returns it
  to the loader, which drops it. The texture that the caller holds has no image, with
  the default colour as with a colour of the caller's.
\<close>

theorem loadTexture_failure_keeps_empty_texture:
  "fst (loadTexture url None loader_init) = 0
   \<and> textures (settle Failed (snd (loadTexture url None loader_init)))
       = [NoImage, Canvas1x1 0x888888]
   \<and> texture_image (settle Failed (snd (loadTexture url None loader_init)))
         (fst (loadTexture url None loader_init)) = Some NoImage
   \<and> texture_image (settle Failed (snd (loadTexture url (Some c) loader_init)))
         (fst (loadTexture url (Some c) loader_init)) = Some NoImage
   \<and> texture_image (settle Loaded (snd (loadTexture url None loader_init)))
         (fst (loadTexture url None loader_init)) = Some (Bitmap url)"
  by (simp add: loadTexture_init settle_def on_error_def new_Texture_def texture_image_def
      Let_def)

section \<open>The camera distance\<close>

lemma controls_step_bounds:
  "minDistance (controls_step e c) = minDistance c"
  "maxDistance (controls_step e c) = maxDistance c"
  by (simp_all add: controls_step_def controls_update_def zoom_input_def
      split: controls_event.splits)

lemma controls_step_in_range:
  assumes "minDistance c \<le> maxDistance c"
    and "minDistance c \<le> camera_distance c \<and> camera_distance c \<le> maxDistance c"
  shows "minDistance c \<le> camera_distance (controls_step e c)
         \<and> camera_distance (controls_step e c) \<le> maxDistance c"
  using assms
  by (cases e) (simp_all add: controls_step_def controls_update_def zoom_input_def clamp_def)

lemma run_controls_in_range:
  assumes "minDistance c \<le> maxDistance c"
    and "minDistance c \<le> camera_distance c \<and> camera_distance c \<le> maxDistance c"
  shows "minDistance (run_controls es c) = minDistance c
         \<and> maxDistance (run_controls es c) = maxDistance c
         \<and> minDistance c \<le> camera_distance (run_controls es c)
         \<and> camera_distance (run_controls es c) \<le> maxDistance c"
  using assms
proof (induction es arbitrary: c)
  case Nil
  then show ?case by (simp add: run_controls_def)
next
  case (Cons e es)
  have step: "run_controls (e # es) c = run_controls es (controls_step e c)"
    by (simp add: run_controls_def)
  have "minDistance (controls_step e c) \<le> maxDistance (controls_step e c)"
    using Cons.prems(1) by (simp add: controls_step_bounds)
  moreover have "minDistance (controls_step e c) \<le> camera_distance (controls_step e c)
      \<and> camera_distance (controls_step e c) \<le> maxDistance (controls_step e c)"
    using controls_step_in_range [OF Cons.prems] by (simp add: controls_step_bounds)
  ultimately show ?case
    using Cons.IH [of "controls_step e c"] by (simp add: step controls_step_bounds)
qed

lemma controls_solar_fields:
  "minDistance controls_solar = 15"
  "maxDistance controls_solar = 2000"
  "15 \<le> camera_distance controls_solar \<and> camera_distance controls_solar \<le> 2000"
  by (simp_all add: controls_solar_def controls_update_def clamp_def)

text \<open>
  C6. Once the distance from the camera to the target is inside the configured bounds,
  no sequence of zoom inputs and controller updates takes it out of them; the set-up of
  the solar systems starts it inside the bounds 15 and 2000.
\<close>

theorem camera_distance_bounded:
  assumes "minDistance c \<le> maxDistance c"
    and "minDistance c \<le> camera_distance c" and "camera_distance c \<le> maxDistance c"
  shows "minDistance c \<le> camera_distance (run_controls es c)
         \<and> camera_distance (run_controls es c) \<le> maxDistance c
         \<and> 15 \<le> camera_distance (run_controls es controls_solar)
         \<and> camera_distance (run_controls es controls_solar) \<le> 2000"
proof -
  have "minDistance c \<le> camera_distance (run_controls es c)
         \<and> camera_distance (run_controls es c) \<le> maxDistance c"
    using run_controls_in_range [of c es] assms by simp
  moreover have "15 \<le> camera_distance (run_controls es controls_solar)
         \<and> camera_distance (run_controls es controls_solar) \<le> 2000"
    using run_controls_in_range [of controls_solar es] by (simp add: controls_solar_fields)
  ultimately show ?thesis by simp
qed

theorem camera_distance_bounded_witness:
  "minDistance controls_solar \<le> maxDistance controls_solar
   \<and> minDistance controls_solar \<le> camera_distance controls_solar
   \<and> camera_distance controls_solar \<le> maxDistance controls_solar
   \<and> 15 \<le> camera_distance (run_controls [Zoom 1000, Update, Update, Zoom 0, Update] controls_solar)
   \<and> camera_distance (run_controls [Zoom 1000, Update, Update, Zoom 0, Update] controls_solar) \<le> 2000"
proof -
  have h1: "minDistance controls_solar \<le> maxDistance controls_solar"
    and h2: "minDistance controls_solar \<le> camera_distance controls_solar"
    and h3: "camera_distance controls_solar \<le> maxDistance controls_solar"
    by (simp_all add: controls_solar_fields)
  from camera_distance_bounded [OF h1 h2 h3, of "[Zoom 1000, Update, Update, Zoom 0, Update]"]
    h1 h2 h3
  show ?thesis by simp
qed

end
